theory Spec2Isabelle
  imports Main "HOL-Library.Word" "HOL-Library.Sublist"
begin

unbundle bit_operations_syntax

text \<open>
  The data-access layer of the authentication service: the user store and the
  refresh-token store over PostgreSQL (package postgres) and the token cache over
  Redis (package redis). Each method is one statement or one command; what it does
  depends on the table it runs against, on the clock, on the identifier generator and
  on whether the call gets through. The model therefore has two layers: the
  environment (tables with the constraints of the schema, the driver, the clock
  readings, the random bytes), and the methods of the repository written over it, line
  for line.
\<close>

section \<open>Domain model (package domain)\<close>

text \<open>
  A \<open>uuid.UUID\<close> is an array of 16 bytes; it is modelled as the 128-bit word whose most
  significant byte is byte 0 of the array. A \<open>time.Time\<close> is an instant, counted in
  nanoseconds since the Unix epoch (an unbounded integer), together with the offset of
  its location, in seconds east of UTC; its monotonic reading is left out. A
  \<open>time.Duration\<close> is an \<open>int64\<close> count of nanoseconds.
\<close>

type_synonym UUID = "128 word"
datatype Time = Time (instant: int) (zone: int)
type_synonym Duration = int

record User =
  ID :: UUID
  Name :: string
  Email :: string
  PasswordHash :: string
  CreatedAt :: Time
  UpdatedAt :: Time

record RefreshToken =
  ID :: UUID
  UserID :: UUID
  RefreshToken :: string
  ExpiresAt :: Time
  CreatedAt :: Time
  UpdatedAt :: Time

section \<open>Go errors\<close>

text \<open>
  An error value is the sentinel \<open>pgx.ErrNoRows\<close>, some other error handed up by the
  database driver (known by its message only), an error handed up by the cache client
  (likewise), or the result of \<open>fmt.Errorf\<close>: the formatted message together with the
  operand of \<open>%w\<close> when the format has one.
\<close>

datatype error =
    ErrNoRows
  | DriverError string
  | RedisError string
  | Errorf string "error option"

fun Error :: "error \<Rightarrow> string" where
  "Error ErrNoRows = ''no rows in result set''"
| "Error (DriverError m) = m"
| "Error (RedisError m) = m"
| "Error (Errorf m c) = m"

fun Unwrap :: "error \<Rightarrow> error option" where
  "Unwrap (Errorf m c) = c"
| "Unwrap e = None"

text \<open>\<open>fmt.Errorf(msg)\<close> with no verb, and \<open>fmt.Errorf(prefix + "%w", err)\<close>.\<close>

definition fmt_Errorf :: "string \<Rightarrow> error" where
  "fmt_Errorf msg = Errorf msg None"

definition fmt_Errorf_w :: "string \<Rightarrow> error \<Rightarrow> error" where
  "fmt_Errorf_w pre err = Errorf (pre @ Error err) (Some err)"

text \<open>\<open>errors.Is\<close>: the target is the error itself or is found along its chain.\<close>

fun errors_Is :: "error \<Rightarrow> error \<Rightarrow> bool" where
  "errors_Is (Errorf m (Some c)) t = (Errorf m (Some c) = t \<or> errors_Is c t)"
| "errors_Is e t = (e = t)"

text \<open>
  The kinds of failure the stores report. The source has no error types: a kind is
  recognised by the message the store formats. \<open>NotFound\<close> is a message starting
  \<open>user not found\<close> or \<open>refresh token not found\<close>; \<open>PersistenceError\<close> is a message
  starting \<open>failed to\<close> that wraps its cause.
\<close>

definition NotFound :: "error \<Rightarrow> bool" where
  "NotFound e =
     (prefix ''user not found'' (Error e) \<or> prefix ''refresh token not found'' (Error e))"

definition PersistenceError :: "error \<Rightarrow> bool" where
  "PersistenceError e = (prefix ''failed to '' (Error e) \<and> Unwrap e \<noteq> None)"

text \<open>
  \<open>CacheError\<close> is a failure of the cache layer. The cache methods return the client's
  error as it is, so a \<open>CacheError\<close> is an error of the cache client.
\<close>

fun CacheError :: "error \<Rightarrow> bool" where
  "CacheError (RedisError m) = True"
| "CacheError e = False"

section \<open>The environment: identifiers, the clock, the database driver\<close>

subsection \<open>uuid.New\<close>

text \<open>
  \<open>uuid.New()\<close> of github.com/google/uuid draws 16 bytes from the random source and
  stamps them as a version 4 identifier:
  \<^verbatim>\<open>uuid[6] = (uuid[6] & 0x0f) | 0x40\<close> and \<^verbatim>\<open>uuid[8] = (uuid[8] & 0x3f) | 0x80\<close>.
  The bytes drawn are an argument of the model. (The library panics when the random
  source cannot deliver; that case is outside the model.)
\<close>

definition uuid_New :: "128 word \<Rightarrow> UUID" where
  "uuid_New rnd =
     (let u = (rnd AND NOT (push_bit 72 0xF0)) OR push_bit 72 0x40
      in (u AND NOT (push_bit 56 0xC0)) OR push_bit 56 0x80)"

text \<open>\<open>uuid.Nil\<close>, the zero identifier.\<close>

definition Nil_UUID :: UUID where
  "Nil_UUID = 0"

text \<open>
  The 122 bits of the bytes drawn that \<open>uuid.New\<close> keeps: all but the high nibble of
  byte 6 and the two high bits of byte 8.
\<close>

definition random_bits :: "128 word" where
  "random_bits = NOT (push_bit 72 0xF0 OR push_bit 56 0xC0)"

subsection \<open>One round trip to the server\<close>

text \<open>
  Every store operation makes exactly one call on the connection. The environment
  decides whether the call reaches the server: \<open>Delivered\<close>, and then the statement
  runs against the table; or \<open>Failed m\<close>, the driver reporting an error with message
  \<open>m\<close> (connection lost, context cancelled or past its deadline, a value the column
  type rejects, a row that \<open>Scan\<close> cannot decode) and the table staying as it was.
  A call that fails after the server has carried the statement out is not modelled.
\<close>

datatype roundtrip = Delivered | Failed string

text \<open>
  \<open>conn.Exec\<close>: the statement, with its parameters bound, maps the table to an error or
  to the new table and the number of rows affected.
\<close>

definition Exec :: "roundtrip \<Rightarrow> ('t \<Rightarrow> error + 't \<times> nat) \<Rightarrow> 't \<Rightarrow> 't \<times> (error + nat)" where
  "Exec rt stmt tbl =
     (case rt of
        Failed m \<Rightarrow> (tbl, Inl (DriverError m))
      | Delivered \<Rightarrow>
          (case stmt tbl of
             Inl e \<Rightarrow> (tbl, Inl e)
           | Inr (tbl', n) \<Rightarrow> (tbl', Inr n)))"

text \<open>
  \<open>conn.QueryRow(...).Scan(...)\<close>: the query maps the table to the rows it selects;
  \<open>Scan\<close> reads the first of them and reports \<open>pgx.ErrNoRows\<close> when there is none.
\<close>

definition QueryRow_Scan :: "roundtrip \<Rightarrow> ('t \<Rightarrow> 'r list) \<Rightarrow> 't \<Rightarrow> error + 'r" where
  "QueryRow_Scan rt query tbl =
     (case rt of
        Failed m \<Rightarrow> Inl (DriverError m)
      | Delivered \<Rightarrow>
          (case query tbl of
             [] \<Rightarrow> Inl ErrNoRows
           | r # rs \<Rightarrow> Inr r))"

text \<open>
  The server's refusal of a duplicate key, as the driver renders it:
  \<^verbatim>\<open>ERROR: duplicate key value violates unique constraint "c" (SQLSTATE 23505)\<close>.
\<close>

definition unique_violation :: "string \<Rightarrow> error" where
  "unique_violation c =
     DriverError (''ERROR: duplicate key value violates unique constraint ''
                  @ [CHR 0x22] @ c @ [CHR 0x22] @ '' (SQLSTATE 23505)'')"

subsection \<open>Instants in a TIMESTAMP column\<close>

text \<open>
  A \<open>TIMESTAMP\<close> column holds a date and time of day without a zone, in whole
  microseconds. The driver sends a \<open>time.Time\<close> as the microseconds of its wall-clock
  reading (year, month, day, hour, minute, second and nanosecond as they read in the
  value's own location, the zone dropped and the nanoseconds cut to microseconds), and
  scans a column back as that wall-clock reading in UTC. A column value is counted here
  in microseconds since the Unix epoch.
\<close>

type_synonym timestamp = int

definition timestamp_of :: "Time \<Rightarrow> timestamp" where
  "timestamp_of t = (instant t + zone t * 1000000000) div 1000"

definition time_of :: "timestamp \<Rightarrow> Time" where
  "time_of ts = Time (ts * 1000) 0"

text \<open>\<open>t.After(u)\<close>: the instant of \<open>t\<close> is later than the instant of \<open>u\<close>.\<close>

definition After :: "Time \<Rightarrow> Time \<Rightarrow> bool" where
  "After t u = (instant u < instant t)"

subsection \<open>Table users\<close>

text \<open>
  \<^verbatim>\<open>users(id UUID PRIMARY KEY, name VARCHAR(100), email VARCHAR(100) UNIQUE,
        password_hash VARCHAR(100), created_at TIMESTAMP, updated_at TIMESTAMP)\<close>
  A row is the tuple of its columns in this order; the table is the list of its rows,
  oldest first. Only rows whose columns are all non-null are modelled (the stores
  write no other), and a string the column types accept is stored as it is given.
\<close>

type_synonym users_row = "UUID \<times> string \<times> string \<times> string \<times> timestamp \<times> timestamp"

fun users_id :: "users_row \<Rightarrow> UUID" where
  "users_id (i, n, e, p, c, u) = i"

fun users_email :: "users_row \<Rightarrow> string" where
  "users_email (i, n, e, p, c, u) = e"

text \<open>
  \<^verbatim>\<open>INSERT INTO users (id, name, email, password_hash, created_at, updated_at)
   VALUES ($1, $2, $3, $4, $5, $6)\<close>
\<close>

definition insert_users ::
  "UUID \<Rightarrow> string \<Rightarrow> string \<Rightarrow> string \<Rightarrow> Time \<Rightarrow> Time \<Rightarrow> users_row list
     \<Rightarrow> error + users_row list \<times> nat" where
  "insert_users p1 p2 p3 p4 p5 p6 tbl =
     (if p1 \<in> set (map users_id tbl) then Inl (unique_violation ''users_pkey'')
      else if p3 \<in> set (map users_email tbl) then Inl (unique_violation ''users_email_key'')
      else Inr (tbl @ [(p1, p2, p3, p4, timestamp_of p5, timestamp_of p6)], 1))"

text \<open>
  \<^verbatim>\<open>SELECT id, name, email, password_hash, created_at, updated_at FROM users WHERE id = $1\<close>
\<close>

definition select_users_by_id :: "UUID \<Rightarrow> users_row list \<Rightarrow> users_row list" where
  "select_users_by_id p1 tbl = filter (\<lambda>r. users_id r = p1) tbl"

text \<open>
  \<^verbatim>\<open>SELECT id, name, email, password_hash, created_at, updated_at FROM users WHERE email=$1\<close>
\<close>

definition select_users_by_email :: "string \<Rightarrow> users_row list \<Rightarrow> users_row list" where
  "select_users_by_email p1 tbl = filter (\<lambda>r. users_email r = p1) tbl"

text \<open>
  \<^verbatim>\<open>UPDATE users SET name = $1, email = $2, password_hash = $3, updated_at = $4 WHERE id = $5\<close>
  The statement fails when it would give a row the email of another row; the number of
  rows affected is the number of rows the \<open>WHERE\<close> clause matched.
\<close>

fun set_users ::
  "string \<Rightarrow> string \<Rightarrow> string \<Rightarrow> timestamp \<Rightarrow> users_row \<Rightarrow> users_row" where
  "set_users v1 v2 v3 v4 (i, n, e, p, c, u) = (i, v1, v2, v3, c, v4)"

definition update_users ::
  "string \<Rightarrow> string \<Rightarrow> string \<Rightarrow> Time \<Rightarrow> UUID \<Rightarrow> users_row list
     \<Rightarrow> error + users_row list \<times> nat" where
  "update_users p1 p2 p3 p4 p5 tbl =
     (let hit = filter (\<lambda>r. users_id r = p5) tbl;
          taken = filter (\<lambda>r. users_id r \<noteq> p5 \<and> users_email r = p2) tbl
      in if hit \<noteq> [] \<and> taken \<noteq> [] then Inl (unique_violation ''users_email_key'')
         else Inr (map (\<lambda>r. if users_id r = p5
                            then set_users p1 p2 p3 (timestamp_of p4) r else r) tbl,
                   length hit))"

text \<open>\<^verbatim>\<open>DELETE FROM users WHERE id = $1\<close>\<close>

definition delete_users :: "UUID \<Rightarrow> users_row list \<Rightarrow> error + users_row list \<times> nat" where
  "delete_users p1 tbl =
     Inr (filter (\<lambda>r. users_id r \<noteq> p1) tbl, length (filter (\<lambda>r. users_id r = p1) tbl))"

section \<open>The user store (users.go)\<close>

text \<open>
  Each method takes what the environment supplies to it (the random bytes of
  \<open>uuid.New\<close>, the readings of \<open>time.Now\<close> in the order the method takes them, the
  outcome of its round trip), the table, and its own arguments. A method with a
  pointer argument returns the record as it leaves it; \<open>error\<close> \<open>nil\<close> is \<open>None\<close>.
\<close>

definition UserDB_Create ::
  "128 word \<Rightarrow> Time \<Rightarrow> Time \<Rightarrow> roundtrip \<Rightarrow> users_row list \<Rightarrow> User
     \<Rightarrow> User \<times> users_row list \<times> error option" where
  "UserDB_Create rnd now1 now2 rt db user0 =
     (let user = user0\<lparr>User.ID := uuid_New rnd\<rparr>;
          user = user\<lparr>User.CreatedAt := now1\<rparr>;
          user = user\<lparr>User.UpdatedAt := now2\<rparr>;
          (db', res) = Exec rt (insert_users (User.ID user) (Name user) (Email user)
                                  (PasswordHash user) (User.CreatedAt user) (User.UpdatedAt user)) db
      in case res of
           Inl err \<Rightarrow> (user, db', Some (fmt_Errorf_w ''failed to insert user: '' err))
         | Inr n \<Rightarrow> (user, db', None))"

text \<open>\<open>Scan\<close> stores the six columns, in order, into the six fields.\<close>

fun Scan_User :: "users_row \<Rightarrow> User" where
  "Scan_User (c1, c2, c3, c4, c5, c6) =
     \<lparr>User.ID = c1, Name = c2, Email = c3, PasswordHash = c4,
      User.CreatedAt = time_of c5, User.UpdatedAt = time_of c6\<rparr>"

definition UserDB_Read :: "roundtrip \<Rightarrow> users_row list \<Rightarrow> UUID \<Rightarrow> error + User" where
  "UserDB_Read rt db id' =
     (case QueryRow_Scan rt (select_users_by_id id') db of
        Inl err \<Rightarrow>
          (if errors_Is err ErrNoRows then Inl (fmt_Errorf ''user not found'')
           else Inl (fmt_Errorf_w ''failed to read user: '' err))
      | Inr row \<Rightarrow> Inr (Scan_User row))"

definition UserDB_ReadByEmail :: "roundtrip \<Rightarrow> users_row list \<Rightarrow> string \<Rightarrow> error + User" where
  "UserDB_ReadByEmail rt db email =
     (case QueryRow_Scan rt (select_users_by_email email) db of
        Inl err \<Rightarrow>
          (if errors_Is err ErrNoRows then Inl (fmt_Errorf_w ''user not found: '' err)
           else Inl (fmt_Errorf_w ''failed to read user: '' err))
      | Inr row \<Rightarrow> Inr (Scan_User row))"

definition UserDB_Update ::
  "Time \<Rightarrow> roundtrip \<Rightarrow> users_row list \<Rightarrow> User \<Rightarrow> User \<times> users_row list \<times> error option" where
  "UserDB_Update now rt db user0 =
     (let user = user0\<lparr>User.UpdatedAt := now\<rparr>;
          (db', res) = Exec rt (update_users (Name user) (Email user) (PasswordHash user)
                                  (User.UpdatedAt user) (User.ID user)) db
      in case res of
           Inl err \<Rightarrow> (user, db', Some (fmt_Errorf_w ''failed to update user: '' err))
         | Inr rowsAffected \<Rightarrow>
             (if rowsAffected = 0 then (user, db', Some (fmt_Errorf ''user not found''))
              else (user, db', None)))"

definition UserDB_Delete :: "roundtrip \<Rightarrow> users_row list \<Rightarrow> UUID \<Rightarrow> users_row list \<times> error option" where
  "UserDB_Delete rt db id' =
     (let (db', res) = Exec rt (delete_users id') db
      in case res of
           Inl err \<Rightarrow> (db', Some (fmt_Errorf_w ''failed to delete user: '' err))
         | Inr rowsAffected \<Rightarrow>
             (if rowsAffected = 0 then (db', Some (fmt_Errorf ''user not found''))
              else (db', None)))"

section \<open>The refresh-token store (tokens.go)\<close>

subsection \<open>Table refresh_tokens\<close>

text \<open>
  \<^verbatim>\<open>refresh_tokens(id UUID PRIMARY KEY, user_id UUID NOT NULL, refresh_token TEXT NOT NULL,
                 expires_at TIMESTAMP NOT NULL, created_at TIMESTAMP, updated_at TIMESTAMP)\<close>
  The primary key is the only uniqueness constraint: two rows may hold the same
  \<open>refresh_token\<close>. A query without \<open>ORDER BY\<close> that selects several rows returns them in
  the order of the table.
\<close>

type_synonym tokens_row = "UUID \<times> UUID \<times> string \<times> timestamp \<times> timestamp \<times> timestamp"

fun tokens_id :: "tokens_row \<Rightarrow> UUID" where
  "tokens_id (i, w, s, x, c, u) = i"

fun tokens_refresh_token :: "tokens_row \<Rightarrow> string" where
  "tokens_refresh_token (i, w, s, x, c, u) = s"

text \<open>
  \<^verbatim>\<open>INSERT INTO refresh_tokens (id, user_id, refresh_token, expires_at, created_at, updated_at)
   VALUES ($1, $2, $3, $4, $5, $6)\<close>
\<close>

definition insert_refresh_tokens ::
  "UUID \<Rightarrow> UUID \<Rightarrow> string \<Rightarrow> Time \<Rightarrow> Time \<Rightarrow> Time \<Rightarrow> tokens_row list
     \<Rightarrow> error + tokens_row list \<times> nat" where
  "insert_refresh_tokens p1 p2 p3 p4 p5 p6 tbl =
     (if p1 \<in> set (map tokens_id tbl) then Inl (unique_violation ''refresh_tokens_pkey'')
      else Inr (tbl @ [(p1, p2, p3, timestamp_of p4, timestamp_of p5, timestamp_of p6)], 1))"

text \<open>
  \<^verbatim>\<open>SELECT id, user_id, refresh_token, expires_at, created_at, updated_at
   FROM refresh_tokens WHERE id = $1\<close>
\<close>

definition select_refresh_tokens_by_id :: "UUID \<Rightarrow> tokens_row list \<Rightarrow> tokens_row list" where
  "select_refresh_tokens_by_id p1 tbl = filter (\<lambda>r. tokens_id r = p1) tbl"

text \<open>
  \<^verbatim>\<open>SELECT id, user_id, refresh_token, expires_at, created_at, updated_at
   FROM refresh_tokens WHERE refresh_token=$1\<close>
\<close>

definition select_refresh_tokens_by_refresh_token ::
  "string \<Rightarrow> tokens_row list \<Rightarrow> tokens_row list" where
  "select_refresh_tokens_by_refresh_token p1 tbl = filter (\<lambda>r. tokens_refresh_token r = p1) tbl"

text \<open>\<^verbatim>\<open>DELETE FROM refresh_tokens WHERE id = $1\<close>\<close>

definition delete_refresh_tokens ::
  "UUID \<Rightarrow> tokens_row list \<Rightarrow> error + tokens_row list \<times> nat" where
  "delete_refresh_tokens p1 tbl =
     Inr (filter (\<lambda>r. tokens_id r \<noteq> p1) tbl, length (filter (\<lambda>r. tokens_id r = p1) tbl))"

subsection \<open>The methods\<close>

definition RefreshTokenDB_Create ::
  "128 word \<Rightarrow> Time \<Rightarrow> Time \<Rightarrow> roundtrip \<Rightarrow> tokens_row list \<Rightarrow> RefreshToken
     \<Rightarrow> RefreshToken \<times> tokens_row list \<times> error option" where
  "RefreshTokenDB_Create rnd now1 now2 rt db token0 =
     (let token = token0\<lparr>ID := uuid_New rnd\<rparr>;
          token = token\<lparr>CreatedAt := now1\<rparr>;
          token = token\<lparr>UpdatedAt := now2\<rparr>;
          (db', res) = Exec rt (insert_refresh_tokens (ID token) (UserID token) (RefreshToken token)
                                  (ExpiresAt token) (CreatedAt token) (UpdatedAt token)) db
      in case res of
           Inl err \<Rightarrow> (token, db', Some (fmt_Errorf_w ''failed to insert refresh token: '' err))
         | Inr n \<Rightarrow> (token, db', None))"

fun Scan_RefreshToken :: "tokens_row \<Rightarrow> RefreshToken" where
  "Scan_RefreshToken (c1, c2, c3, c4, c5, c6) =
     \<lparr>ID = c1, UserID = c2, RefreshToken = c3, ExpiresAt = time_of c4,
      CreatedAt = time_of c5, UpdatedAt = time_of c6\<rparr>"

definition RefreshTokenDB_Read :: "roundtrip \<Rightarrow> tokens_row list \<Rightarrow> UUID \<Rightarrow> error + RefreshToken" where
  "RefreshTokenDB_Read rt db id' =
     (case QueryRow_Scan rt (select_refresh_tokens_by_id id') db of
        Inl err \<Rightarrow>
          (if errors_Is err ErrNoRows then Inl (fmt_Errorf_w ''refresh token not found: '' err)
           else Inl (fmt_Errorf_w ''failed to read refresh token: '' err))
      | Inr row \<Rightarrow> Inr (Scan_RefreshToken row))"

definition RefreshTokenDB_ReadByRefreshToken ::
  "roundtrip \<Rightarrow> tokens_row list \<Rightarrow> string \<Rightarrow> error + RefreshToken" where
  "RefreshTokenDB_ReadByRefreshToken rt db refreshToken =
     (case QueryRow_Scan rt (select_refresh_tokens_by_refresh_token refreshToken) db of
        Inl err \<Rightarrow>
          (if errors_Is err ErrNoRows then Inl (fmt_Errorf_w ''refresh token not found: '' err)
           else Inl (fmt_Errorf_w ''failed to read refresh token: '' err))
      | Inr row \<Rightarrow> Inr (Scan_RefreshToken row))"

definition RefreshTokenDB_Delete ::
  "roundtrip \<Rightarrow> tokens_row list \<Rightarrow> UUID \<Rightarrow> tokens_row list \<times> error option" where
  "RefreshTokenDB_Delete rt db id' =
     (let (db', res) = Exec rt (delete_refresh_tokens id') db
      in case res of
           Inl err \<Rightarrow> (db', Some (fmt_Errorf_w ''failed to delete refresh token: '' err))
         | Inr rowsAffected \<Rightarrow>
             (if rowsAffected = 0 then (db', Some (fmt_Errorf ''refresh token not found''))
              else (db', None)))"

section \<open>The token cache (package redis)\<close>

text \<open>
  \<open>UUID.String()\<close>: the 32 lower-case hexadecimal digits of the identifier, most
  significant first, in groups of 8, 4, 4, 4 and 12 separated by hyphens.
\<close>

definition hexdigit :: "nat \<Rightarrow> char" where
  "hexdigit n = ''0123456789abcdef'' ! n"

definition hex :: "UUID \<Rightarrow> nat \<Rightarrow> nat \<Rightarrow> string" where
  "hex u i j = map (\<lambda>k. hexdigit (unat (take_bit 4 (drop_bit (4 * (31 - k)) u)))) [i..<j]"

definition String :: "UUID \<Rightarrow> string" where
  "String u =
     hex u 0 8 @ ''-'' @ hex u 8 12 @ ''-'' @ hex u 12 16 @ ''-'' @ hex u 16 20 @ ''-'' @ hex u 20 32"

text \<open>
  \<open>t.Sub(u)\<close> of package time: the duration between the two instants, and the largest
  or smallest \<open>Duration\<close> when the difference does not fit an \<open>int64\<close>.
\<close>

definition maxDuration :: Duration where
  "maxDuration = 2 ^ 63 - 1"

definition minDuration :: Duration where
  "minDuration = - (2 ^ 63)"

definition Sub :: "Time \<Rightarrow> Time \<Rightarrow> Duration" where
  "Sub t u =
     (if minDuration \<le> instant t - instant u \<and> instant t - instant u \<le> maxDuration
      then instant t - instant u
      else if instant t < instant u then minDuration
      else maxDuration)"

text \<open>
  \<open>Set\<close> of github.com/redis/go-redis/v9 builds the command from its expiration:
  \<^verbatim>\<open>if expiration > 0 {
      if usePrecise(expiration) { args = append(args, "px", formatMs(ctx, expiration)) }
      else                      { args = append(args, "ex", formatSec(ctx, expiration)) }
  } else if expiration == KeepTTL { args = append(args, "keepttl") }\<close>
  with \<^verbatim>\<open>usePrecise(dur) = dur < time.Second || dur%time.Second != 0\<close>, and \<open>formatMs\<close>
  and \<open>formatSec\<close> giving 1 for a positive duration below their unit and the quotient
  otherwise. Both are called with a positive duration only, where Go's truncating
  division and remainder are \<open>div\<close> and \<open>mod\<close>.
\<close>

definition Millisecond :: Duration where
  "Millisecond = 1000000"

definition Second :: Duration where
  "Second = 1000000000"

definition KeepTTL :: Duration where
  "KeepTTL = - 1"

definition usePrecise :: "Duration \<Rightarrow> bool" where
  "usePrecise dur = (dur < Second \<or> dur mod Second \<noteq> 0)"

definition formatMs :: "Duration \<Rightarrow> int" where
  "formatMs dur = (if 0 < dur \<and> dur < Millisecond then 1 else dur div Millisecond)"

definition formatSec :: "Duration \<Rightarrow> int" where
  "formatSec dur = (if 0 < dur \<and> dur < Second then 1 else dur div Second)"

text \<open>
  The cache: for each key, its value and its time to live in milliseconds, \<open>None\<close>
  for an entry that does not expire. \<open>SET key value PX ms\<close> and \<open>SET key value EX s\<close>
  store the value with that time to live, \<open>SET key value KEEPTTL\<close> stores it with the
  time to live the key had, and \<open>SET key value\<close> stores it without one.
  \<open>Set(...).Err()\<close> is \<open>nil\<close> when the command went through and the client's error
  otherwise, the cache staying as it was.
\<close>

type_synonym cache = "string \<rightharpoonup> string \<times> int option"

definition redis_Set ::
  "roundtrip \<Rightarrow> cache \<Rightarrow> string \<Rightarrow> string \<Rightarrow> Duration \<Rightarrow> cache \<times> error option" where
  "redis_Set rt c key val expiration =
     (case rt of
        Failed m \<Rightarrow> (c, Some (RedisError m))
      | Delivered \<Rightarrow>
          (if 0 < expiration then
             (if usePrecise expiration
              then (c(key \<mapsto> (val, Some (formatMs expiration))), None)
              else (c(key \<mapsto> (val, Some (formatSec expiration * 1000))), None))
           else if expiration = KeepTTL
           then (c(key \<mapsto> (val, case c key of None \<Rightarrow> None | Some (v, ttl) \<Rightarrow> ttl)), None)
           else (c(key \<mapsto> (val, None)), None)))"

definition TokenCache_Set ::
  "Time \<Rightarrow> roundtrip \<Rightarrow> cache \<Rightarrow> RefreshToken \<Rightarrow> cache \<times> error option" where
  "TokenCache_Set now rt c token =
     redis_Set rt c (String (ID token)) (RefreshToken token) (Sub (ExpiresAt token) now)"

section \<open>Auxiliary facts\<close>

subsection \<open>Identifiers and errors\<close>

lemma uuid_New_bit78: "bit (uuid_New rnd) 78"
  by (simp add: uuid_New_def Let_def bit_simps)

lemma uuid_New_not_Nil: "uuid_New rnd \<noteq> Nil_UUID"
  using uuid_New_bit78[of rnd] by (auto simp: Nil_UUID_def)

lemma NotFound_user: "NotFound (fmt_Errorf ''user not found'')"
  by (simp add: NotFound_def fmt_Errorf_def)

lemma NotFound_user_w: "NotFound (fmt_Errorf_w ''user not found: '' e)"
  by (simp add: NotFound_def fmt_Errorf_w_def)

lemma NotFound_token: "NotFound (fmt_Errorf ''refresh token not found'')"
  by (simp add: NotFound_def fmt_Errorf_def)

lemma NotFound_token_w: "NotFound (fmt_Errorf_w ''refresh token not found: '' e)"
  by (simp add: NotFound_def fmt_Errorf_w_def)

lemma NotFound_not_PersistenceError: "NotFound e \<Longrightarrow> \<not> PersistenceError e"
  by (auto simp: NotFound_def PersistenceError_def prefix_def)

lemma PersistenceError_failed: "PersistenceError (fmt_Errorf_w (''failed to '' @ what) e)"
  by (simp add: PersistenceError_def fmt_Errorf_w_def)

lemma PersistenceError_read_user:
  "PersistenceError (fmt_Errorf_w ''failed to read user: '' e)"
  using PersistenceError_failed[of "''read user: ''"] by simp

lemma PersistenceError_read_token:
  "PersistenceError (fmt_Errorf_w ''failed to read refresh token: '' e)"
  using PersistenceError_failed[of "''read refresh token: ''"] by simp

lemma Unwrap_fmt_Errorf_w: "Unwrap (fmt_Errorf_w pre e) = Some e"
  by (simp add: fmt_Errorf_w_def)

subsection \<open>Selecting rows by a key\<close>

lemma filter_key_empty: "k \<notin> set (map f tbl) \<Longrightarrow> filter (\<lambda>r. f r = k) tbl = []"
  by (auto simp: filter_empty_conv)

lemma filter_key_nonempty: "k \<in> set (map f tbl) \<Longrightarrow> filter (\<lambda>r. f r = k) tbl \<noteq> []"
  by (auto simp: filter_empty_conv)

lemma filter_key_Cons:
  assumes "k \<in> set (map f tbl)"
  obtains r rs where "filter (\<lambda>r. f r = k) tbl = r # rs"
  using filter_key_nonempty[OF assms] by (cases "filter (\<lambda>r. f r = k) tbl") auto

lemma filter_other_keys: "k \<notin> set (map f tbl) \<Longrightarrow> filter (\<lambda>r. f r \<noteq> k) tbl = tbl"
  by (induction tbl) auto

lemma users_id_set_users [simp]: "users_id (set_users p1 p2 p3 p4 r) = users_id r"
  by (cases r) simp

lemma filter_hit_update:
  "filter (\<lambda>r. users_id r = k)
     (map (\<lambda>r. if users_id r = k then set_users p1 p2 p3 p4 r else r) tbl)
     = map (set_users p1 p2 p3 p4) (filter (\<lambda>r. users_id r = k) tbl)"
  by (induction tbl) auto

lemma filter_rest_update:
  "filter (\<lambda>r. users_id r \<noteq> k)
     (map (\<lambda>r. if users_id r = k then set_users p1 p2 p3 p4 r else r) tbl)
     = filter (\<lambda>r. users_id r \<noteq> k) tbl"
  by (induction tbl) auto

lemma QueryRow_Scan_by_id_append:
  assumes "p1 \<notin> set (map users_id tbl)"
  shows "QueryRow_Scan Delivered (select_users_by_id p1) (tbl @ [(p1, p2, p3, p4, p5, p6)])
           = Inr (p1, p2, p3, p4, p5, p6)"
proof -
  have "filter (\<lambda>r. users_id r = p1) tbl = []"
    using assms by (rule filter_key_empty)
  then show ?thesis
    by (simp add: QueryRow_Scan_def select_users_by_id_def)
qed

subsection \<open>What Create leaves behind\<close>

lemma UserDB_Create_record:
  "fst (UserDB_Create rnd now1 now2 rt db user)
     = user\<lparr>User.ID := uuid_New rnd, User.CreatedAt := now1, User.UpdatedAt := now2\<rparr>"
  by (simp add: UserDB_Create_def Let_def split: prod.splits sum.splits)

lemma RefreshTokenDB_Create_record:
  "fst (RefreshTokenDB_Create rnd now1 now2 rt db token)
     = token\<lparr>ID := uuid_New rnd, CreatedAt := now1, UpdatedAt := now2\<rparr>"
  by (simp add: RefreshTokenDB_Create_def Let_def split: prod.splits sum.splits)

lemma UserDB_Create_table:
  "fst (snd (UserDB_Create rnd now1 now2 rt db user)) =
     (if snd (snd (UserDB_Create rnd now1 now2 rt db user)) = None
      then db @ [(uuid_New rnd, Name user, Email user, PasswordHash user,
                timestamp_of now1, timestamp_of now2)]
      else db)"
  by (simp add: UserDB_Create_def Exec_def insert_users_def Let_def split: roundtrip.splits)

lemma RefreshTokenDB_Create_table:
  "fst (snd (RefreshTokenDB_Create rnd now1 now2 rt db token)) =
     (if snd (snd (RefreshTokenDB_Create rnd now1 now2 rt db token)) = None
      then db @ [(uuid_New rnd, UserID token, RefreshToken token,
                timestamp_of (ExpiresAt token), timestamp_of now1, timestamp_of now2)]
      else db)"
  by (simp add: RefreshTokenDB_Create_def Exec_def insert_refresh_tokens_def Let_def
           split: roundtrip.splits)

lemma UserDB_Create_ok_fresh:
  assumes "snd (snd (UserDB_Create rnd now1 now2 rt db user)) = None"
  shows "uuid_New rnd \<notin> set (map users_id db)"
    and "Email user \<notin> set (map users_email db)"
    and "rt = Delivered"
  using assms
  by (auto simp: UserDB_Create_def Exec_def insert_users_def Let_def
           split: roundtrip.splits if_splits)

lemma RefreshTokenDB_Create_ok_fresh:
  assumes "snd (snd (RefreshTokenDB_Create rnd now1 now2 rt db token)) = None"
  shows "uuid_New rnd \<notin> set (map tokens_id db)"
    and "rt = Delivered"
  using assms
  by (auto simp: RefreshTokenDB_Create_def Exec_def insert_refresh_tokens_def Let_def
           split: roundtrip.splits if_splits)

lemma UserDB_Create_ok:
  assumes "UserDB_Create rnd now1 now2 rt db user = (user', db', None)"
  shows "user' = user\<lparr>User.ID := uuid_New rnd, User.CreatedAt := now1, User.UpdatedAt := now2\<rparr>"
    and "db' = db @ [(uuid_New rnd, Name user, Email user, PasswordHash user,
                timestamp_of now1, timestamp_of now2)]"
    and "uuid_New rnd \<notin> set (map users_id db)"
    and "Email user \<notin> set (map users_email db)"
proof -
  have e: "snd (snd (UserDB_Create rnd now1 now2 rt db user)) = None"
    by (simp add: assms)
  show "user' = user\<lparr>User.ID := uuid_New rnd, User.CreatedAt := now1, User.UpdatedAt := now2\<rparr>"
    using UserDB_Create_record[of rnd now1 now2 rt db user] by (simp add: assms)
  show "db' = db @ [(uuid_New rnd, Name user, Email user, PasswordHash user,
                timestamp_of now1, timestamp_of now2)]"
    using UserDB_Create_table[of rnd now1 now2 rt db user] by (simp add: assms)
  show "uuid_New rnd \<notin> set (map users_id db)"
    by (rule UserDB_Create_ok_fresh(1)[OF e])
  show "Email user \<notin> set (map users_email db)"
    by (rule UserDB_Create_ok_fresh(2)[OF e])
qed

lemma RefreshTokenDB_Create_ok:
  assumes "RefreshTokenDB_Create rnd now1 now2 rt db token = (token', db', None)"
  shows "token' = token\<lparr>ID := uuid_New rnd, CreatedAt := now1, UpdatedAt := now2\<rparr>"
    and "db' = db @ [(uuid_New rnd, UserID token, RefreshToken token,
                timestamp_of (ExpiresAt token), timestamp_of now1, timestamp_of now2)]"
    and "uuid_New rnd \<notin> set (map tokens_id db)"
proof -
  have e: "snd (snd (RefreshTokenDB_Create rnd now1 now2 rt db token)) = None"
    by (simp add: assms)
  show "token' = token\<lparr>ID := uuid_New rnd, CreatedAt := now1, UpdatedAt := now2\<rparr>"
    using RefreshTokenDB_Create_record[of rnd now1 now2 rt db token] by (simp add: assms)
  show "db' = db @ [(uuid_New rnd, UserID token, RefreshToken token,
                timestamp_of (ExpiresAt token), timestamp_of now1, timestamp_of now2)]"
    using RefreshTokenDB_Create_table[of rnd now1 now2 rt db token] by (simp add: assms)
  show "uuid_New rnd \<notin> set (map tokens_id db)"
    by (rule RefreshTokenDB_Create_ok_fresh(1)[OF e])
qed

subsection \<open>Update and Delete\<close>

lemma UserDB_Update_record:
  "fst (UserDB_Update now rt db user) = user\<lparr>User.UpdatedAt := now\<rparr>"
  by (simp add: UserDB_Update_def Let_def split: prod.splits sum.splits)

lemma UserDB_Update_missing:
  assumes "User.ID user \<notin> set (map users_id db)"
  shows "UserDB_Update now Delivered db user =
           (user\<lparr>User.UpdatedAt := now\<rparr>, db, Some (fmt_Errorf ''user not found''))"
proof -
  have none: "filter (\<lambda>r. users_id r = User.ID user) db = []"
    using assms by (rule filter_key_empty)
  have same: "map (\<lambda>r. if users_id r = User.ID user then set_users p1 p2 p3 p4 r else r) db = db"
    for p1 p2 p3 p4
    using assms by (induction db) auto
  show ?thesis
    by (simp add: UserDB_Update_def Exec_def update_users_def Let_def none same)
qed

lemma UserDB_Update_ok:
  assumes "UserDB_Update now rt db user = (user', db', None)"
  shows "rt = Delivered"
    and "filter (\<lambda>r. users_id r = User.ID user) db \<noteq> []"
    and "db' = map (\<lambda>r. if users_id r = User.ID user
                        then set_users (Name user) (Email user) (PasswordHash user)
                               (timestamp_of now) r
                        else r) db"
  using assms
  by (auto simp: UserDB_Update_def Exec_def update_users_def Let_def
           split: roundtrip.splits if_splits)

lemma UserDB_Delete_missing:
  assumes "k \<notin> set (map users_id db)"
  shows "UserDB_Delete Delivered db k = (db, Some (fmt_Errorf ''user not found''))"
  using assms
  by (simp add: UserDB_Delete_def Exec_def delete_users_def filter_key_empty filter_other_keys)

lemma RefreshTokenDB_Delete_missing:
  assumes "k \<notin> set (map tokens_id db)"
  shows "RefreshTokenDB_Delete Delivered db k = (db, Some (fmt_Errorf ''refresh token not found''))"
  using assms
  by (simp add: RefreshTokenDB_Delete_def Exec_def delete_refresh_tokens_def
        filter_key_empty filter_other_keys)

lemma UserDB_Delete_table:
  "UserDB_Delete rt db k = (db', None) \<Longrightarrow> db' = filter (\<lambda>r. users_id r \<noteq> k) db"
  by (auto simp: UserDB_Delete_def Exec_def delete_users_def split: roundtrip.splits if_splits)

lemma RefreshTokenDB_Delete_table:
  "RefreshTokenDB_Delete rt db k = (db', None) \<Longrightarrow> db' = filter (\<lambda>r. tokens_id r \<noteq> k) db"
  by (auto simp: RefreshTokenDB_Delete_def Exec_def delete_refresh_tokens_def
           split: roundtrip.splits if_splits)

subsection \<open>The three outcomes of a read\<close>

lemma UserDB_Read_missing:
  "k \<notin> set (map users_id db) \<Longrightarrow> UserDB_Read Delivered db k = Inl (fmt_Errorf ''user not found'')"
  by (simp add: UserDB_Read_def QueryRow_Scan_def select_users_by_id_def filter_key_empty)

lemma RefreshTokenDB_Read_missing:
  "k \<notin> set (map tokens_id db) \<Longrightarrow>
   RefreshTokenDB_Read Delivered db k = Inl (fmt_Errorf_w ''refresh token not found: '' ErrNoRows)"
  by (simp add: RefreshTokenDB_Read_def QueryRow_Scan_def select_refresh_tokens_by_id_def
        filter_key_empty)

lemma UserDB_Read_outcomes:
  "((\<exists>e. UserDB_Read rt db k = Inl e \<and> NotFound e)
       \<longleftrightarrow> rt = Delivered \<and> k \<notin> set (map users_id db))
   \<and> (\<forall>m. rt = Failed m \<longrightarrow>
         (\<exists>e. UserDB_Read rt db k = Inl e \<and> PersistenceError e
             \<and> Unwrap e = Some (DriverError m)))
   \<and> ((\<exists>r. UserDB_Read rt db k = Inr r) \<longleftrightarrow> rt = Delivered \<and> k \<in> set (map users_id db))"
proof (cases rt)
  case Delivered
  show ?thesis
  proof (cases "k \<in> set (map users_id db)")
    case True
    then obtain r rs where "filter (\<lambda>r. users_id r = k) db = r # rs"
      by (rule filter_key_Cons)
    with Delivered True show ?thesis
      by (simp add: UserDB_Read_def QueryRow_Scan_def select_users_by_id_def)
  next
    case False
    with Delivered show ?thesis
      by (simp add: UserDB_Read_missing NotFound_user)
  qed
next
  case (Failed m)
  have "\<not> NotFound (fmt_Errorf_w ''failed to read user: '' (DriverError m))"
    using PersistenceError_read_user NotFound_not_PersistenceError by blast
  with Failed show ?thesis
    by (simp add: UserDB_Read_def QueryRow_Scan_def Unwrap_fmt_Errorf_w PersistenceError_read_user)
qed

lemma UserDB_ReadByEmail_outcomes:
  "((\<exists>e. UserDB_ReadByEmail rt db a = Inl e \<and> NotFound e)
       \<longleftrightarrow> rt = Delivered \<and> a \<notin> set (map users_email db))
   \<and> (\<forall>m. rt = Failed m \<longrightarrow>
         (\<exists>e. UserDB_ReadByEmail rt db a = Inl e \<and> PersistenceError e
             \<and> Unwrap e = Some (DriverError m)))
   \<and> ((\<exists>r. UserDB_ReadByEmail rt db a = Inr r)
       \<longleftrightarrow> rt = Delivered \<and> a \<in> set (map users_email db))"
proof (cases rt)
  case Delivered
  show ?thesis
  proof (cases "a \<in> set (map users_email db)")
    case True
    then obtain r rs where "filter (\<lambda>r. users_email r = a) db = r # rs"
      by (rule filter_key_Cons)
    with Delivered True show ?thesis
      by (simp add: UserDB_ReadByEmail_def QueryRow_Scan_def select_users_by_email_def)
  next
    case False
    then have "filter (\<lambda>r. users_email r = a) db = []"
      by (rule filter_key_empty)
    with Delivered False show ?thesis
      by (simp add: UserDB_ReadByEmail_def QueryRow_Scan_def select_users_by_email_def
            NotFound_user_w)
  qed
next
  case (Failed m)
  have "\<not> NotFound (fmt_Errorf_w ''failed to read user: '' (DriverError m))"
    using PersistenceError_read_user NotFound_not_PersistenceError by blast
  with Failed show ?thesis
    by (simp add: UserDB_ReadByEmail_def QueryRow_Scan_def Unwrap_fmt_Errorf_w
          PersistenceError_read_user)
qed

lemma RefreshTokenDB_Read_outcomes:
  "((\<exists>e. RefreshTokenDB_Read rt db k = Inl e \<and> NotFound e)
       \<longleftrightarrow> rt = Delivered \<and> k \<notin> set (map tokens_id db))
   \<and> (\<forall>m. rt = Failed m \<longrightarrow>
         (\<exists>e. RefreshTokenDB_Read rt db k = Inl e \<and> PersistenceError e
             \<and> Unwrap e = Some (DriverError m)))
   \<and> ((\<exists>r. RefreshTokenDB_Read rt db k = Inr r)
       \<longleftrightarrow> rt = Delivered \<and> k \<in> set (map tokens_id db))"
proof (cases rt)
  case Delivered
  show ?thesis
  proof (cases "k \<in> set (map tokens_id db)")
    case True
    then obtain r rs where "filter (\<lambda>r. tokens_id r = k) db = r # rs"
      by (rule filter_key_Cons)
    with Delivered True show ?thesis
      by (simp add: RefreshTokenDB_Read_def QueryRow_Scan_def select_refresh_tokens_by_id_def)
  next
    case False
    with Delivered show ?thesis
      by (simp add: RefreshTokenDB_Read_missing NotFound_token_w)
  qed
next
  case (Failed m)
  have "\<not> NotFound (fmt_Errorf_w ''failed to read refresh token: '' (DriverError m))"
    using PersistenceError_read_token NotFound_not_PersistenceError by blast
  with Failed show ?thesis
    by (simp add: RefreshTokenDB_Read_def QueryRow_Scan_def Unwrap_fmt_Errorf_w
          PersistenceError_read_token)
qed

lemma RefreshTokenDB_ReadByRefreshToken_outcomes:
  "((\<exists>e. RefreshTokenDB_ReadByRefreshToken rt db s = Inl e \<and> NotFound e)
       \<longleftrightarrow> rt = Delivered \<and> s \<notin> set (map tokens_refresh_token db))
   \<and> (\<forall>m. rt = Failed m \<longrightarrow>
         (\<exists>e. RefreshTokenDB_ReadByRefreshToken rt db s = Inl e \<and> PersistenceError e
             \<and> Unwrap e = Some (DriverError m)))
   \<and> ((\<exists>r. RefreshTokenDB_ReadByRefreshToken rt db s = Inr r)
       \<longleftrightarrow> rt = Delivered \<and> s \<in> set (map tokens_refresh_token db))"
proof (cases rt)
  case Delivered
  show ?thesis
  proof (cases "s \<in> set (map tokens_refresh_token db)")
    case True
    then obtain r rs where "filter (\<lambda>r. tokens_refresh_token r = s) db = r # rs"
      by (rule filter_key_Cons)
    with Delivered True show ?thesis
      by (simp add: RefreshTokenDB_ReadByRefreshToken_def QueryRow_Scan_def
            select_refresh_tokens_by_refresh_token_def)
  next
    case False
    then have "filter (\<lambda>r. tokens_refresh_token r = s) db = []"
      by (rule filter_key_empty)
    with Delivered False show ?thesis
      by (simp add: RefreshTokenDB_ReadByRefreshToken_def QueryRow_Scan_def
            select_refresh_tokens_by_refresh_token_def NotFound_token_w)
  qed
next
  case (Failed m)
  have "\<not> NotFound (fmt_Errorf_w ''failed to read refresh token: '' (DriverError m))"
    using PersistenceError_read_token NotFound_not_PersistenceError by blast
  with Failed show ?thesis
    by (simp add: RefreshTokenDB_ReadByRefreshToken_def QueryRow_Scan_def Unwrap_fmt_Errorf_w
          PersistenceError_read_token)
qed

subsection \<open>Whole microseconds\<close>

lemma whole_microsecond_later:
  fixes u w :: int
  shows "u * 1000 < w div 1000 * 1000 \<longleftrightarrow> u * 1000 + 1000 \<le> w"
proof -
  define q where "q = w div 1000"
  define m where "m = w mod 1000"
  have w: "w = 1000 * q + m" and m: "0 \<le> m" "m < 1000"
    by (simp_all add: q_def m_def)
  have "u * 1000 < q * 1000 \<longleftrightarrow> u * 1000 + 1000 \<le> w"
  proof
    assume "u * 1000 < q * 1000"
    then have "u + 1 \<le> q" by simp
    then have "(u + 1) * 1000 \<le> q * 1000" by simp
    with w m show "u * 1000 + 1000 \<le> w" by (simp add: algebra_simps)
  next
    assume "u * 1000 + 1000 \<le> w"
    with w m have "(u + 1) * 1000 < (q + 1) * 1000" by (simp add: algebra_simps)
    then have "u + 1 < q + 1" by simp
    then show "u * 1000 < q * 1000" by simp
  qed
  then show ?thesis by (simp add: q_def)
qed

subsection \<open>Durations and times to live\<close>

lemma Sub_in_range:
  "minDuration \<le> instant t - instant u \<Longrightarrow> instant t - instant u \<le> maxDuration
   \<Longrightarrow> Sub t u = instant t - instant u"
  by (simp add: Sub_def)

lemma Sub_above: "maxDuration < instant t - instant u \<Longrightarrow> Sub t u = maxDuration"
  by (auto simp: Sub_def maxDuration_def minDuration_def)

lemma Sub_positive:
  "instant u < instant t \<Longrightarrow> Sub t u = min maxDuration (instant t - instant u)"
  by (auto simp: Sub_def maxDuration_def minDuration_def)

lemma Sub_positive_iff: "0 < Sub t u \<longleftrightarrow> instant u < instant t"
  by (auto simp: Sub_def maxDuration_def minDuration_def)

lemma ttl_precise:
  assumes "0 < d" and "usePrecise d"
  shows "formatMs d = max 1 (d div 1000000)"
proof (cases "d < 1000000")
  case True
  with assms(1) have "d div 1000000 = 0" by simp
  with True assms(1) show ?thesis by (simp add: formatMs_def Millisecond_def)
next
  case False
  then have "1 \<le> d div 1000000" by simp
  with False show ?thesis by (simp add: formatMs_def Millisecond_def)
qed

lemma ttl_seconds:
  assumes "0 < d" and "\<not> usePrecise d"
  shows "formatSec d * 1000 = max 1 (d div 1000000)"
proof -
  from assms have big: "1000000000 \<le> d" and whole: "d mod 1000000000 = 0"
    by (simp_all add: usePrecise_def Second_def)
  from whole obtain k where k: "d = 1000000000 * k"
    by (auto simp: mod_eq_0_iff_dvd)
  with big have "1 \<le> k" by simp
  have "d div 1000000 = 1000 * k"
    by (simp add: k)
  moreover have "d div 1000000000 = k"
    by (simp add: k)
  ultimately show ?thesis
    using big \<open>1 \<le> k\<close> by (simp add: formatSec_def Second_def)
qed

lemma redis_Set_positive:
  assumes "0 < d"
  shows "redis_Set Delivered c key val d = (c(key \<mapsto> (val, Some (max 1 (d div 1000000)))), None)"
  using assms by (simp add: redis_Set_def ttl_precise ttl_seconds)

lemma redis_Set_frame: "k \<noteq> key \<Longrightarrow> fst (redis_Set rt c key val d) k = c k"
  by (cases rt) (simp_all add: redis_Set_def)

lemma redis_Set_error:
  "snd (redis_Set rt c key val d) = (case rt of Delivered \<Rightarrow> None | Failed m \<Rightarrow> Some (RedisError m))"
  by (cases rt) (simp_all add: redis_Set_def)

subsection \<open>The bits of an identifier\<close>

lemma disjoint_bits:
  fixes a B :: "'a::len word"
  assumes "a AND B = 0"
  shows "\<not> (bit a n \<and> bit B n)"
proof -
  have "bit (a AND B) n = (bit a n \<and> bit B n)" by (simp add: bit_and_iff)
  with assms show ?thesis by simp
qed

lemma stamp_general:
  fixes r A a B b :: "'a::len word"
  assumes "a AND B = 0"
  shows "(((r AND NOT A) OR a) AND NOT B) OR b = (r AND NOT (A OR B)) OR (a OR b)"
  by (rule bit_eqI) (use disjoint_bits[OF assms] in \<open>auto simp: bit_simps\<close>)

lemma keep_general:
  fixes r A a B b :: "'a::len word"
  assumes "a AND B = 0" and "(a OR b) AND NOT (A OR B) = 0"
  shows "((((r AND NOT A) OR a) AND NOT B) OR b) AND NOT (A OR B) = r AND NOT (A OR B)"
  by (rule bit_eqI)
     (use disjoint_bits[OF assms(1)] disjoint_bits[OF assms(2)] in \<open>auto simp: bit_simps\<close>)

lemma version_clear_of_variant: "push_bit 72 (0x40 :: 128 word) AND push_bit 56 0xC0 = 0"
  by simp

lemma stamp_outside_random_bits:
  "(push_bit 72 (0x40 :: 128 word) OR push_bit 56 0x80)
     AND NOT (push_bit 72 0xF0 OR push_bit 56 0xC0) = 0"
  by simp

lemma uuid_New_stamp:
  "uuid_New r = (r AND random_bits) OR (push_bit 72 0x40 OR push_bit 56 0x80)"
  unfolding uuid_New_def random_bits_def Let_def
  by (rule stamp_general[OF version_clear_of_variant])

lemma uuid_New_random_bits: "uuid_New r AND random_bits = r AND random_bits"
  unfolding uuid_New_def random_bits_def Let_def
  by (rule keep_general[OF version_clear_of_variant stamp_outside_random_bits])

lemma uuid_New_eq_iff:
  "uuid_New r = uuid_New r' \<longleftrightarrow> r AND random_bits = r' AND random_bits"
proof
  assume "uuid_New r = uuid_New r'"
  then have "uuid_New r AND random_bits = uuid_New r' AND random_bits"
    by simp
  then show "r AND random_bits = r' AND random_bits"
    by (simp add: uuid_New_random_bits)
next
  assume "r AND random_bits = r' AND random_bits"
  then show "uuid_New r = uuid_New r'"
    by (simp add: uuid_New_stamp)
qed

subsection \<open>An identifier as text\<close>

lemma String_example:
  "String 0x9f1c2d3e4a5b4c6d8e7f001122334455 = ''9f1c2d3e-4a5b-4c6d-8e7f-001122334455''"
  by (simp add: String_def hex_def hexdigit_def upt_conv_Cons drop_bit_eq_div take_bit_eq_mod)

section \<open>Create, then Read\<close>

text \<open>
  Claim C1. A user is valid for the table when the statement reaches the server and
  neither the identifier drawn for it nor its email is already there. For every such
  user, \<open>Create\<close> returns no error, and \<open>Read\<close> on the identifier \<open>Create\<close> assigned
  returns a record with the \<open>Name\<close>, \<open>Email\<close> and \<open>PasswordHash\<close> of the user created.
\<close>

theorem UserDB_Create_then_Read:
  assumes fresh_id: "uuid_New rnd \<notin> set (map users_id db)"
      and fresh_email: "Email user \<notin> set (map users_email db)"
  shows "\<exists>user' db' r.
           UserDB_Create rnd now1 now2 Delivered db user = (user', db', None)
         \<and> UserDB_Read Delivered db' (User.ID user') = Inr r
         \<and> Name r = Name user \<and> Email r = Email user \<and> PasswordHash r = PasswordHash user"
  using assms
  by (simp add: UserDB_Create_def UserDB_Read_def Exec_def insert_users_def Let_def
        QueryRow_Scan_by_id_append)

text \<open>
  C1 at the user of the repository's own test, created in a table that already holds
  another user.
\<close>

theorem UserDB_Create_then_Read_witness:
  "\<exists>user' db' r.
     UserDB_Create 0x123e4567e89b12d3a456426614174000 (Time 1000000 0) (Time 1001000 0) Delivered
       [(0x9f1c2d3e4a5b4c6d8e7f001122334455, ''Bob'', ''bob@example.com'', ''h'', 100, 100)]
       \<lparr>User.ID = 0, Name = ''Alice'', Email = ''alice@example.com'',
        PasswordHash = ''hashedpassword'',
        User.CreatedAt = Time 0 0, User.UpdatedAt = Time 0 0\<rparr>
       = (user', db', None)
   \<and> UserDB_Read Delivered db' (User.ID user') = Inr r
   \<and> Name r = ''Alice'' \<and> Email r = ''alice@example.com'' \<and> PasswordHash r = ''hashedpassword''"
proof -
  have h1: "uuid_New 0x123e4567e89b12d3a456426614174000 \<notin> set (map users_id
       [(0x9f1c2d3e4a5b4c6d8e7f001122334455, ''Bob'', ''bob@example.com'', ''h'', 100, 100)])"
    by (simp add: uuid_New_def)
  have h2: "Email \<lparr>User.ID = 0, Name = ''Alice'', Email = ''alice@example.com'',
        PasswordHash = ''hashedpassword'',
        User.CreatedAt = Time 0 0, User.UpdatedAt = Time 0 0\<rparr>
      \<notin> set (map users_email
       [(0x9f1c2d3e4a5b4c6d8e7f001122334455, ''Bob'', ''bob@example.com'', ''h'', 100, 100)])"
    by simp
  show ?thesis
    using UserDB_Create_then_Read[OF h1 h2, of "Time 1000000 0" "Time 1001000 0"] by simp
qed

section \<open>Operations on an identifier no row has\<close>

text \<open>
  Claim C2. When the statement reaches the server and no row has the identifier,
  \<open>UserDB.Update\<close>, \<open>UserDB.Delete\<close> and \<open>RefreshTokenDB.Delete\<close> return an error that
  is a \<open>NotFound\<close> and not a \<open>PersistenceError\<close>, and the table is as it was.
\<close>

theorem missing_id_yields_NotFound:
  "(User.ID user \<notin> set (map users_id db) \<longrightarrow>
      (\<exists>e. UserDB_Update now Delivered db user = (user\<lparr>User.UpdatedAt := now\<rparr>, db, Some e)
          \<and> NotFound e \<and> \<not> PersistenceError e))
   \<and> (k \<notin> set (map users_id db) \<longrightarrow>
      (\<exists>e. UserDB_Delete Delivered db k = (db, Some e) \<and> NotFound e \<and> \<not> PersistenceError e))
   \<and> (tk \<notin> set (map tokens_id tdb) \<longrightarrow>
      (\<exists>e. RefreshTokenDB_Delete Delivered tdb tk = (tdb, Some e)
          \<and> NotFound e \<and> \<not> PersistenceError e))"
  using NotFound_user NotFound_token NotFound_not_PersistenceError
  by (simp add: UserDB_Update_missing UserDB_Delete_missing RefreshTokenDB_Delete_missing)

text \<open>C2 at a table that holds Alice only, for the identifier of Bob.\<close>

theorem missing_id_yields_NotFound_witness:
  "(\<exists>e. UserDB_Update (Time 200000 0) Delivered
           [(0x123e4567e89b42d3a456426614174000, ''Alice'', ''alice@example.com'',
             ''hashedpassword'', 100, 100)]
           \<lparr>User.ID = 0x9f1c2d3e4a5b4c6d8e7f001122334455, Name = ''Bob'',
            Email = ''bob@example.com'', PasswordHash = ''h'',
            User.CreatedAt = Time 0 0, User.UpdatedAt = Time 0 0\<rparr>
         = (\<lparr>User.ID = 0x9f1c2d3e4a5b4c6d8e7f001122334455, Name = ''Bob'',
             Email = ''bob@example.com'', PasswordHash = ''h'',
             User.CreatedAt = Time 0 0, User.UpdatedAt = Time 200000 0\<rparr>,
            [(0x123e4567e89b42d3a456426614174000, ''Alice'', ''alice@example.com'',
              ''hashedpassword'', 100, 100)],
            Some e)
       \<and> NotFound e \<and> \<not> PersistenceError e)
   \<and> (\<exists>e. UserDB_Delete Delivered
           [(0x123e4567e89b42d3a456426614174000, ''Alice'', ''alice@example.com'',
             ''hashedpassword'', 100, 100)]
           0x9f1c2d3e4a5b4c6d8e7f001122334455
         = ([(0x123e4567e89b42d3a456426614174000, ''Alice'', ''alice@example.com'',
              ''hashedpassword'', 100, 100)],
            Some e)
       \<and> NotFound e \<and> \<not> PersistenceError e)
   \<and> (\<exists>e. RefreshTokenDB_Delete Delivered [] 0x9f1c2d3e4a5b4c6d8e7f001122334455 = ([], Some e)
       \<and> NotFound e \<and> \<not> PersistenceError e)"
  using missing_id_yields_NotFound[of
      "\<lparr>User.ID = 0x9f1c2d3e4a5b4c6d8e7f001122334455, Name = ''Bob'',
        Email = ''bob@example.com'', PasswordHash = ''h'',
        User.CreatedAt = Time 0 0, User.UpdatedAt = Time 0 0\<rparr>"
      "[(0x123e4567e89b42d3a456426614174000, ''Alice'', ''alice@example.com'',
         ''hashedpassword'', 100, 100)]"
      "Time 200000 0" "0x9f1c2d3e4a5b4c6d8e7f001122334455"
      "0x9f1c2d3e4a5b4c6d8e7f001122334455" "[]"]
  by simp

section \<open>What a successful Update does to the row\<close>

text \<open>
  Claim C3, as the code has it. When \<open>UserDB.Update\<close> returns no error, the row with
  the user's identifier existed before, and afterwards
  \<^item> its \<open>UpdatedAt\<close> is the reading of the clock that \<open>Update\<close> took, as the column keeps
    it: the wall-clock time of the reading, cut to whole microseconds and read back in
    UTC;
  \<^item> that is later than the prior \<open>UpdatedAt\<close> exactly when the wall-clock time of the
    reading is at least a whole microsecond past the stored value;
  \<^item> its \<open>Name\<close>, \<open>Email\<close> and \<open>PasswordHash\<close> are the user's, its \<open>CreatedAt\<close> and \<open>ID\<close>
    are what they were, and every other row is untouched.
\<close>

theorem UserDB_Update_row:
  assumes ok: "UserDB_Update now rt db user = (user', db', None)"
  shows "\<exists>old new.
           UserDB_Read Delivered db (User.ID user) = Inr old
         \<and> UserDB_Read Delivered db' (User.ID user) = Inr new
         \<and> User.UpdatedAt new = time_of (timestamp_of now)
         \<and> (After (User.UpdatedAt new) (User.UpdatedAt old)
              \<longleftrightarrow> instant (User.UpdatedAt old) + 1000 \<le> instant now + zone now * 1000000000)
         \<and> Name new = Name user \<and> Email new = Email user
         \<and> PasswordHash new = PasswordHash user
         \<and> User.CreatedAt new = User.CreatedAt old \<and> User.ID new = User.ID old
         \<and> filter (\<lambda>r. users_id r \<noteq> User.ID user) db'
             = filter (\<lambda>r. users_id r \<noteq> User.ID user) db"
proof -
  note facts = UserDB_Update_ok[OF ok]
  obtain r rs where hit: "filter (\<lambda>r. users_id r = User.ID user) db = r # rs"
    using facts(2) by (cases "filter (\<lambda>r. users_id r = User.ID user) db") auto
  obtain i n e p c u where r: "r = (i, n, e, p, c, u)"
    by (cases r) auto
  have old: "UserDB_Read Delivered db (User.ID user) = Inr (Scan_User r)"
    by (simp add: UserDB_Read_def QueryRow_Scan_def select_users_by_id_def hit)
  have new: "UserDB_Read Delivered db' (User.ID user)
               = Inr (Scan_User (set_users (Name user) (Email user) (PasswordHash user)
                                   (timestamp_of now) r))"
    by (simp add: UserDB_Read_def QueryRow_Scan_def select_users_by_id_def facts(3)
          filter_hit_update hit)
  have rest: "filter (\<lambda>r. users_id r \<noteq> User.ID user) db'
                = filter (\<lambda>r. users_id r \<noteq> User.ID user) db"
    by (simp add: facts(3) filter_rest_update)
  have later: "After (time_of (timestamp_of now)) (time_of u)
                 \<longleftrightarrow> instant (time_of u) + 1000 \<le> instant now + zone now * 1000000000"
    using whole_microsecond_later[of u "instant now + zone now * 1000000000"]
    by (simp add: After_def time_of_def timestamp_of_def)
  show ?thesis
    using old new rest later by (simp add: r)
qed

text \<open>
  C3 at the update of the repository's own test, taken three hours east of UTC and
  some hours after the row was written.
\<close>

theorem UserDB_Update_row_witness:
  "\<exists>old new.
     UserDB_Read Delivered
       [(0x123e4567e89b42d3a456426614174000, ''Alice'', ''alice@example.com'',
         ''hashedpassword'', 1699990000000000, 1699990000000000),
        (0x9f1c2d3e4a5b4c6d8e7f001122334455, ''Bob'', ''bob@example.com'', ''h'', 100, 100)]
       0x123e4567e89b42d3a456426614174000 = Inr old
   \<and> UserDB_Read Delivered
       [(0x123e4567e89b42d3a456426614174000, ''Alice Updated'', ''alice_updated@example.com'',
         ''newhashedpassword'', 1699990000000000, 1700010800123456),
        (0x9f1c2d3e4a5b4c6d8e7f001122334455, ''Bob'', ''bob@example.com'', ''h'', 100, 100)]
       0x123e4567e89b42d3a456426614174000 = Inr new
   \<and> User.UpdatedAt new = Time 1700010800123456000 0
   \<and> After (User.UpdatedAt new) (User.UpdatedAt old)
   \<and> Name new = ''Alice Updated'' \<and> Email new = ''alice_updated@example.com''
   \<and> PasswordHash new = ''newhashedpassword''
   \<and> User.CreatedAt new = User.CreatedAt old \<and> User.ID new = User.ID old"
proof -
  have ok: "UserDB_Update (Time 1700000000123456789 10800) Delivered
       [(0x123e4567e89b42d3a456426614174000, ''Alice'', ''alice@example.com'',
         ''hashedpassword'', 1699990000000000, 1699990000000000),
        (0x9f1c2d3e4a5b4c6d8e7f001122334455, ''Bob'', ''bob@example.com'', ''h'', 100, 100)]
       \<lparr>User.ID = 0x123e4567e89b42d3a456426614174000, Name = ''Alice Updated'',
        Email = ''alice_updated@example.com'', PasswordHash = ''newhashedpassword'',
        User.CreatedAt = Time 0 0, User.UpdatedAt = Time 0 0\<rparr>
     = (\<lparr>User.ID = 0x123e4567e89b42d3a456426614174000, Name = ''Alice Updated'',
        Email = ''alice_updated@example.com'', PasswordHash = ''newhashedpassword'',
        User.CreatedAt = Time 0 0, User.UpdatedAt = Time 1700000000123456789 10800\<rparr>,
        [(0x123e4567e89b42d3a456426614174000, ''Alice Updated'', ''alice_updated@example.com'',
          ''newhashedpassword'', 1699990000000000, 1700010800123456),
         (0x9f1c2d3e4a5b4c6d8e7f001122334455, ''Bob'', ''bob@example.com'', ''h'', 100, 100)],
        None)"
    by (simp add: UserDB_Update_def Exec_def update_users_def Let_def timestamp_of_def)
  show ?thesis
    using UserDB_Update_row[OF ok]
    by (auto simp: UserDB_Read_def QueryRow_Scan_def select_users_by_id_def
          time_of_def timestamp_of_def After_def)
qed

text \<open>
  C3 as the specification states it fails: a row whose \<open>UpdatedAt\<close> is the microsecond
  \<open>1700000000000000\<close> is updated at a reading of the clock 500 nanoseconds later, in
  UTC. \<open>Update\<close> succeeds; the column again holds \<open>1700000000000000\<close>, and the \<open>UpdatedAt\<close>
  that \<open>Read\<close> returns afterwards is not later than the one it returned before.
\<close>

theorem UserDB_Update_not_strictly_later:
  "UserDB_Read Delivered
     [(0x123e4567e89b42d3a456426614174000, ''Alice'', ''alice@example.com'',
       ''hashedpassword'', 1700000000000000, 1700000000000000)]
     0x123e4567e89b42d3a456426614174000
     = Inr \<lparr>User.ID = 0x123e4567e89b42d3a456426614174000, Name = ''Alice'',
            Email = ''alice@example.com'', PasswordHash = ''hashedpassword'',
            User.CreatedAt = Time 1700000000000000000 0,
            User.UpdatedAt = Time 1700000000000000000 0\<rparr>
   \<and> UserDB_Update (Time 1700000000000000500 0) Delivered
     [(0x123e4567e89b42d3a456426614174000, ''Alice'', ''alice@example.com'',
       ''hashedpassword'', 1700000000000000, 1700000000000000)]
     \<lparr>User.ID = 0x123e4567e89b42d3a456426614174000, Name = ''Alice Updated'',
      Email = ''alice_updated@example.com'', PasswordHash = ''newhashedpassword'',
      User.CreatedAt = Time 0 0, User.UpdatedAt = Time 0 0\<rparr>
     = (\<lparr>User.ID = 0x123e4567e89b42d3a456426614174000, Name = ''Alice Updated'',
        Email = ''alice_updated@example.com'', PasswordHash = ''newhashedpassword'',
        User.CreatedAt = Time 0 0, User.UpdatedAt = Time 1700000000000000500 0\<rparr>,
        [(0x123e4567e89b42d3a456426614174000, ''Alice Updated'', ''alice_updated@example.com'',
          ''newhashedpassword'', 1700000000000000, 1700000000000000)],
        None)
   \<and> UserDB_Read Delivered
     [(0x123e4567e89b42d3a456426614174000, ''Alice Updated'', ''alice_updated@example.com'',
       ''newhashedpassword'', 1700000000000000, 1700000000000000)]
     0x123e4567e89b42d3a456426614174000
     = Inr \<lparr>User.ID = 0x123e4567e89b42d3a456426614174000, Name = ''Alice Updated'',
            Email = ''alice_updated@example.com'', PasswordHash = ''newhashedpassword'',
            User.CreatedAt = Time 1700000000000000000 0,
            User.UpdatedAt = Time 1700000000000000000 0\<rparr>
   \<and> \<not> After
        (User.UpdatedAt (projr (UserDB_Read Delivered
            [(0x123e4567e89b42d3a456426614174000, ''Alice Updated'',
              ''alice_updated@example.com'', ''newhashedpassword'',
              1700000000000000, 1700000000000000)]
            0x123e4567e89b42d3a456426614174000)))
        (User.UpdatedAt (projr (UserDB_Read Delivered
            [(0x123e4567e89b42d3a456426614174000, ''Alice'', ''alice@example.com'',
              ''hashedpassword'', 1700000000000000, 1700000000000000)]
            0x123e4567e89b42d3a456426614174000)))"
  by (simp add: UserDB_Read_def UserDB_Update_def QueryRow_Scan_def Exec_def
        select_users_by_id_def update_users_def Let_def time_of_def timestamp_of_def After_def)

section \<open>The identifier and the timestamps Create assigns\<close>

text \<open>
  Claim C4, as the code has it. \<open>UserDB.Create\<close> and \<open>RefreshTokenDB.Create\<close> give the
  record the identifier \<open>uuid.New\<close> makes of the bytes it draws. That identifier is
  never the zero identifier, and it is unique as far as the random source is: two
  calls of \<open>Create\<close>, whatever their stores, tables and records, assign the same
  identifier exactly when they drew the same 122 random bits. \<open>CreatedAt\<close> is the first
  reading of the clock and \<open>UpdatedAt\<close> the second, so the two are equal exactly when
  the two readings are.
\<close>

theorem Create_assigns_id_and_times:
  "User.ID (fst (UserDB_Create rnd now1 now2 rt db user)) \<noteq> Nil_UUID
   \<and> (User.ID (fst (UserDB_Create rnd now1 now2 rt db user))
        = User.ID (fst (UserDB_Create rnd' now1' now2' rt' db' user'))
       \<longleftrightarrow> rnd AND random_bits = rnd' AND random_bits)
   \<and> User.CreatedAt (fst (UserDB_Create rnd now1 now2 rt db user)) = now1
   \<and> User.UpdatedAt (fst (UserDB_Create rnd now1 now2 rt db user)) = now2
   \<and> (User.CreatedAt (fst (UserDB_Create rnd now1 now2 rt db user))
        = User.UpdatedAt (fst (UserDB_Create rnd now1 now2 rt db user)) \<longleftrightarrow> now1 = now2)
   \<and> ID (fst (RefreshTokenDB_Create rnd now1 now2 rt tdb token)) \<noteq> Nil_UUID
   \<and> (ID (fst (RefreshTokenDB_Create rnd now1 now2 rt tdb token))
        = ID (fst (RefreshTokenDB_Create rnd' now1' now2' rt' tdb' token'))
       \<longleftrightarrow> rnd AND random_bits = rnd' AND random_bits)
   \<and> (ID (fst (RefreshTokenDB_Create rnd now1 now2 rt tdb token))
        = User.ID (fst (UserDB_Create rnd' now1' now2' rt' db' user'))
       \<longleftrightarrow> rnd AND random_bits = rnd' AND random_bits)
   \<and> CreatedAt (fst (RefreshTokenDB_Create rnd now1 now2 rt tdb token)) = now1
   \<and> UpdatedAt (fst (RefreshTokenDB_Create rnd now1 now2 rt tdb token)) = now2
   \<and> (CreatedAt (fst (RefreshTokenDB_Create rnd now1 now2 rt tdb token))
        = UpdatedAt (fst (RefreshTokenDB_Create rnd now1 now2 rt tdb token)) \<longleftrightarrow> now1 = now2)"
  by (simp add: UserDB_Create_record RefreshTokenDB_Create_record uuid_New_not_Nil
        uuid_New_eq_iff)

text \<open>
  C4 at two users created one after the other from draws of the random source that
  differ in their last byte: the identifiers are version 4, not zero, and different.
\<close>

theorem Create_assigns_id_and_times_witness:
  "User.ID (fst (UserDB_Create 0x123e4567e89b12d3a456426614174000
       (Time 1700000000000001000 0) (Time 1700000000000003500 0) Delivered []
       \<lparr>User.ID = 0, Name = ''Alice'', Email = ''alice@example.com'',
        PasswordHash = ''hashedpassword'',
        User.CreatedAt = Time 0 0, User.UpdatedAt = Time 0 0\<rparr>))
     = 0x123e4567e89b42d3a456426614174000
   \<and> User.ID (fst (UserDB_Create 0x123e4567e89b12d3a456426614174001
       (Time 1700000000000009000 0) (Time 1700000000000009000 0) Delivered
       [(0x123e4567e89b42d3a456426614174000, ''Alice'', ''alice@example.com'',
         ''hashedpassword'', 1700000000000001, 1700000000000003)]
       \<lparr>User.ID = 0, Name = ''Bob'', Email = ''bob@example.com'', PasswordHash = ''h'',
        User.CreatedAt = Time 0 0, User.UpdatedAt = Time 0 0\<rparr>))
     = 0x123e4567e89b42d3a456426614174001
   \<and> User.ID (fst (UserDB_Create 0x123e4567e89b12d3a456426614174000
       (Time 1700000000000001000 0) (Time 1700000000000003500 0) Delivered []
       \<lparr>User.ID = 0, Name = ''Alice'', Email = ''alice@example.com'',
        PasswordHash = ''hashedpassword'',
        User.CreatedAt = Time 0 0, User.UpdatedAt = Time 0 0\<rparr>))
     \<noteq> User.ID (fst (UserDB_Create 0x123e4567e89b12d3a456426614174001
       (Time 1700000000000009000 0) (Time 1700000000000009000 0) Delivered
       [(0x123e4567e89b42d3a456426614174000, ''Alice'', ''alice@example.com'',
         ''hashedpassword'', 1700000000000001, 1700000000000003)]
       \<lparr>User.ID = 0, Name = ''Bob'', Email = ''bob@example.com'', PasswordHash = ''h'',
        User.CreatedAt = Time 0 0, User.UpdatedAt = Time 0 0\<rparr>))
   \<and> User.CreatedAt (fst (UserDB_Create 0x123e4567e89b12d3a456426614174001
       (Time 1700000000000009000 0) (Time 1700000000000009000 0) Delivered
       [(0x123e4567e89b42d3a456426614174000, ''Alice'', ''alice@example.com'',
         ''hashedpassword'', 1700000000000001, 1700000000000003)]
       \<lparr>User.ID = 0, Name = ''Bob'', Email = ''bob@example.com'', PasswordHash = ''h'',
        User.CreatedAt = Time 0 0, User.UpdatedAt = Time 0 0\<rparr>))
     = User.UpdatedAt (fst (UserDB_Create 0x123e4567e89b12d3a456426614174001
       (Time 1700000000000009000 0) (Time 1700000000000009000 0) Delivered
       [(0x123e4567e89b42d3a456426614174000, ''Alice'', ''alice@example.com'',
         ''hashedpassword'', 1700000000000001, 1700000000000003)]
       \<lparr>User.ID = 0, Name = ''Bob'', Email = ''bob@example.com'', PasswordHash = ''h'',
        User.CreatedAt = Time 0 0, User.UpdatedAt = Time 0 0\<rparr>))"
proof -
  have differ: "(0x123e4567e89b12d3a456426614174000 :: 128 word) AND random_bits
                  \<noteq> 0x123e4567e89b12d3a456426614174001 AND random_bits"
    by (simp add: random_bits_def)
  show ?thesis
    using differ
      Create_assigns_id_and_times[of "0x123e4567e89b12d3a456426614174000"
        "Time 1700000000000001000 0" "Time 1700000000000003500 0" Delivered "[]"
        "\<lparr>User.ID = 0, Name = ''Alice'', Email = ''alice@example.com'',
          PasswordHash = ''hashedpassword'',
          User.CreatedAt = Time 0 0, User.UpdatedAt = Time 0 0\<rparr>"
        "0x123e4567e89b12d3a456426614174001"
        "Time 1700000000000009000 0" "Time 1700000000000009000 0" Delivered
        "[(0x123e4567e89b42d3a456426614174000, ''Alice'', ''alice@example.com'',
           ''hashedpassword'', 1700000000000001, 1700000000000003)]"
        "\<lparr>User.ID = 0, Name = ''Bob'', Email = ''bob@example.com'', PasswordHash = ''h'',
          User.CreatedAt = Time 0 0, User.UpdatedAt = Time 0 0\<rparr>"]
    by (simp add: UserDB_Create_record uuid_New_def)
qed

text \<open>
  C4 as the specification states it fails.
  \<^item> \<open>Create\<close> reads the clock twice, and when the second reading is 2500 nanoseconds
    after the first the record leaves \<open>Create\<close> with \<open>CreatedAt\<close> different from
    \<open>UpdatedAt\<close>, and so does the row.
  \<^item> When the random source hands a second \<open>Create\<close> the bytes it handed the first, the
    second record is given the identifier of the row that is already there; the insert
    is refused, and the record keeps that identifier.
\<close>

theorem Create_times_differ_ids_repeat:
  "UserDB_Create 0x123e4567e89b12d3a456426614174000
     (Time 1700000000000001000 0) (Time 1700000000000003500 0) Delivered []
     \<lparr>User.ID = 0, Name = ''Alice'', Email = ''alice@example.com'',
      PasswordHash = ''hashedpassword'',
      User.CreatedAt = Time 0 0, User.UpdatedAt = Time 0 0\<rparr>
   = (\<lparr>User.ID = 0x123e4567e89b42d3a456426614174000, Name = ''Alice'',
       Email = ''alice@example.com'', PasswordHash = ''hashedpassword'',
       User.CreatedAt = Time 1700000000000001000 0,
       User.UpdatedAt = Time 1700000000000003500 0\<rparr>,
      [(0x123e4567e89b42d3a456426614174000, ''Alice'', ''alice@example.com'',
        ''hashedpassword'', 1700000000000001, 1700000000000003)],
      None)
   \<and> User.CreatedAt (fst (UserDB_Create 0x123e4567e89b12d3a456426614174000
        (Time 1700000000000001000 0) (Time 1700000000000003500 0) Delivered []
        \<lparr>User.ID = 0, Name = ''Alice'', Email = ''alice@example.com'',
         PasswordHash = ''hashedpassword'',
         User.CreatedAt = Time 0 0, User.UpdatedAt = Time 0 0\<rparr>))
     \<noteq> User.UpdatedAt (fst (UserDB_Create 0x123e4567e89b12d3a456426614174000
        (Time 1700000000000001000 0) (Time 1700000000000003500 0) Delivered []
        \<lparr>User.ID = 0, Name = ''Alice'', Email = ''alice@example.com'',
         PasswordHash = ''hashedpassword'',
         User.CreatedAt = Time 0 0, User.UpdatedAt = Time 0 0\<rparr>))
   \<and> UserDB_Create 0x123e4567e89b12d3a456426614174000
     (Time 1700000000000009000 0) (Time 1700000000000009000 0) Delivered
     [(0x123e4567e89b42d3a456426614174000, ''Alice'', ''alice@example.com'',
       ''hashedpassword'', 1700000000000001, 1700000000000003)]
     \<lparr>User.ID = 0, Name = ''Bob'', Email = ''bob@example.com'', PasswordHash = ''h'',
      User.CreatedAt = Time 0 0, User.UpdatedAt = Time 0 0\<rparr>
   = (\<lparr>User.ID = 0x123e4567e89b42d3a456426614174000, Name = ''Bob'',
       Email = ''bob@example.com'', PasswordHash = ''h'',
       User.CreatedAt = Time 1700000000000009000 0,
       User.UpdatedAt = Time 1700000000000009000 0\<rparr>,
      [(0x123e4567e89b42d3a456426614174000, ''Alice'', ''alice@example.com'',
        ''hashedpassword'', 1700000000000001, 1700000000000003)],
      Some (fmt_Errorf_w ''failed to insert user: '' (unique_violation ''users_pkey'')))"
  by (simp add: UserDB_Create_def Exec_def insert_users_def Let_def uuid_New_def
        timestamp_of_def)

section \<open>Delete, then Read\<close>

text \<open>
  Claim C5. After \<open>UserDB.Delete\<close> (or \<open>RefreshTokenDB.Delete\<close>) has returned no error
  for an identifier, a \<open>Read\<close> of that identifier that reaches the server fails with
  \<open>NotFound\<close>.
\<close>

theorem Delete_then_Read_NotFound:
  "(UserDB_Delete rt db k = (db', None) \<longrightarrow>
      (\<exists>e. UserDB_Read Delivered db' k = Inl e \<and> NotFound e))
   \<and> (RefreshTokenDB_Delete rt' tdb tk = (tdb', None) \<longrightarrow>
      (\<exists>e. RefreshTokenDB_Read Delivered tdb' tk = Inl e \<and> NotFound e))"
proof (intro conjI impI)
  assume "UserDB_Delete rt db k = (db', None)"
  then have "k \<notin> set (map users_id db')"
    by (auto dest!: UserDB_Delete_table)
  then show "\<exists>e. UserDB_Read Delivered db' k = Inl e \<and> NotFound e"
    by (simp add: UserDB_Read_missing NotFound_user)
next
  assume "RefreshTokenDB_Delete rt' tdb tk = (tdb', None)"
  then have "tk \<notin> set (map tokens_id tdb')"
    by (auto dest!: RefreshTokenDB_Delete_table)
  then show "\<exists>e. RefreshTokenDB_Read Delivered tdb' tk = Inl e \<and> NotFound e"
    by (simp add: RefreshTokenDB_Read_missing NotFound_token_w)
qed

text \<open>C5 at the deletions of the repository's own tests.\<close>

theorem Delete_then_Read_NotFound_witness:
  "UserDB_Delete Delivered
     [(0x123e4567e89b42d3a456426614174000, ''Alice'', ''alice@example.com'',
       ''hashedpassword'', 100, 100)]
     0x123e4567e89b42d3a456426614174000 = ([], None)
   \<and> (\<exists>e. UserDB_Read Delivered [] 0x123e4567e89b42d3a456426614174000 = Inl e \<and> NotFound e)
   \<and> RefreshTokenDB_Delete Delivered
     [(0x9f1c2d3e4a5b4c6d8e7f001122334455, 0x123e4567e89b42d3a456426614174000,
       ''example_refresh_token'', 5000, 100, 100)]
     0x9f1c2d3e4a5b4c6d8e7f001122334455 = ([], None)
   \<and> (\<exists>e. RefreshTokenDB_Read Delivered [] 0x9f1c2d3e4a5b4c6d8e7f001122334455 = Inl e
         \<and> NotFound e)"
proof -
  have d1: "UserDB_Delete Delivered
     [(0x123e4567e89b42d3a456426614174000, ''Alice'', ''alice@example.com'',
       ''hashedpassword'', 100, 100)]
     0x123e4567e89b42d3a456426614174000 = ([], None)"
    by (simp add: UserDB_Delete_def Exec_def delete_users_def)
  have d2: "RefreshTokenDB_Delete Delivered
     [(0x9f1c2d3e4a5b4c6d8e7f001122334455, 0x123e4567e89b42d3a456426614174000,
       ''example_refresh_token'', 5000, 100, 100)]
     0x9f1c2d3e4a5b4c6d8e7f001122334455 = ([], None)"
    by (simp add: RefreshTokenDB_Delete_def Exec_def delete_refresh_tokens_def)
  from d1 d2 Delete_then_Read_NotFound[where db' = "[]" and tdb' = "[]"]
  show ?thesis by blast
qed

section \<open>Reading a fresh row by its other key\<close>

text \<open>
  Claim C6, as the code has it. Right after a \<open>UserDB.Create\<close> that returned no error,
  \<open>ReadByEmail\<close> with the user's email and \<open>Read\<close> with the user's identifier return the
  same record, the one just created. Right after a \<open>RefreshTokenDB.Create\<close> that returned
  no error, \<open>ReadByRefreshToken\<close> with the token's string and \<open>Read\<close> with the token's
  identifier return the same record provided no older row holds the same string.
\<close>

theorem fresh_row_read_by_either_key:
  "(UserDB_Create rnd now1 now2 rt db user = (user', db', None) \<longrightarrow>
      (\<exists>r. UserDB_ReadByEmail Delivered db' (Email user') = Inr r
          \<and> UserDB_Read Delivered db' (User.ID user') = Inr r
          \<and> User.ID r = User.ID user' \<and> Email r = Email user'))
   \<and> (RefreshTokenDB_Create rnd' now1' now2' rt' tdb token = (token', tdb', None)
        \<and> RefreshToken token \<notin> set (map tokens_refresh_token tdb) \<longrightarrow>
      (\<exists>r. RefreshTokenDB_ReadByRefreshToken Delivered tdb' (RefreshToken token') = Inr r
          \<and> RefreshTokenDB_Read Delivered tdb' (ID token') = Inr r
          \<and> ID r = ID token' \<and> RefreshToken r = RefreshToken token'))"
proof (intro conjI impI)
  assume ok: "UserDB_Create rnd now1 now2 rt db user = (user', db', None)"
  note f = UserDB_Create_ok[OF ok]
  have "filter (\<lambda>r. users_id r = uuid_New rnd) db = []"
    using f(3) by (rule filter_key_empty)
  moreover have "filter (\<lambda>r. users_email r = Email user) db = []"
    using f(4) by (rule filter_key_empty)
  ultimately show "\<exists>r. UserDB_ReadByEmail Delivered db' (Email user') = Inr r
          \<and> UserDB_Read Delivered db' (User.ID user') = Inr r
          \<and> User.ID r = User.ID user' \<and> Email r = Email user'"
    by (simp add: f(1) f(2) UserDB_ReadByEmail_def UserDB_Read_def QueryRow_Scan_def
          select_users_by_email_def select_users_by_id_def)
next
  assume "RefreshTokenDB_Create rnd' now1' now2' rt' tdb token = (token', tdb', None)
        \<and> RefreshToken token \<notin> set (map tokens_refresh_token tdb)"
  then have ok: "RefreshTokenDB_Create rnd' now1' now2' rt' tdb token = (token', tdb', None)"
    and other: "RefreshToken token \<notin> set (map tokens_refresh_token tdb)"
    by simp_all
  note f = RefreshTokenDB_Create_ok[OF ok]
  have "filter (\<lambda>r. tokens_id r = uuid_New rnd') tdb = []"
    using f(3) by (rule filter_key_empty)
  moreover have "filter (\<lambda>r. tokens_refresh_token r = RefreshToken token) tdb = []"
    using other by (rule filter_key_empty)
  ultimately show "\<exists>r. RefreshTokenDB_ReadByRefreshToken Delivered tdb' (RefreshToken token') = Inr r
          \<and> RefreshTokenDB_Read Delivered tdb' (ID token') = Inr r
          \<and> ID r = ID token' \<and> RefreshToken r = RefreshToken token'"
    by (simp add: f(1) f(2) RefreshTokenDB_ReadByRefreshToken_def RefreshTokenDB_Read_def
          QueryRow_Scan_def select_refresh_tokens_by_refresh_token_def
          select_refresh_tokens_by_id_def)
qed

text \<open>
  C6 at a user created beside another user, and at a token created beside a token
  with a different string.
\<close>

theorem fresh_row_read_by_either_key_witness:
  "(\<exists>r. UserDB_ReadByEmail Delivered
          [(0x9f1c2d3e4a5b4c6d8e7f001122334455, ''Bob'', ''bob@example.com'', ''h'', 100, 100),
           (0x123e4567e89b42d3a456426614174000, ''Alice'', ''alice@example.com'',
            ''hashedpassword'', 1000, 1001)]
          ''alice@example.com'' = Inr r
      \<and> UserDB_Read Delivered
          [(0x9f1c2d3e4a5b4c6d8e7f001122334455, ''Bob'', ''bob@example.com'', ''h'', 100, 100),
           (0x123e4567e89b42d3a456426614174000, ''Alice'', ''alice@example.com'',
            ''hashedpassword'', 1000, 1001)]
          0x123e4567e89b42d3a456426614174000 = Inr r
      \<and> User.ID r = 0x123e4567e89b42d3a456426614174000 \<and> Email r = ''alice@example.com'')
   \<and> (\<exists>r. RefreshTokenDB_ReadByRefreshToken Delivered
          [(0x9f1c2d3e4a5b4c6d8e7f001122334455, 0x0a0b0c0d0e0f40718293a4b5c6d7e8f9,
            ''another_refresh_token'', 90000, 100, 100),
           (0x123e4567e89b42d3a456426614174000, 0x0a0b0c0d0e0f40718293a4b5c6d7e8f9,
            ''example_refresh_token'', 95000, 1000, 1001)]
          ''example_refresh_token'' = Inr r
      \<and> RefreshTokenDB_Read Delivered
          [(0x9f1c2d3e4a5b4c6d8e7f001122334455, 0x0a0b0c0d0e0f40718293a4b5c6d7e8f9,
            ''another_refresh_token'', 90000, 100, 100),
           (0x123e4567e89b42d3a456426614174000, 0x0a0b0c0d0e0f40718293a4b5c6d7e8f9,
            ''example_refresh_token'', 95000, 1000, 1001)]
          0x123e4567e89b42d3a456426614174000 = Inr r
      \<and> ID r = 0x123e4567e89b42d3a456426614174000 \<and> RefreshToken r = ''example_refresh_token'')"
proof -
  have c1: "UserDB_Create 0x123e4567e89b12d3a456426614174000
     (Time 1000000 0) (Time 1001000 0) Delivered
     [(0x9f1c2d3e4a5b4c6d8e7f001122334455, ''Bob'', ''bob@example.com'', ''h'', 100, 100)]
     \<lparr>User.ID = 0, Name = ''Alice'', Email = ''alice@example.com'',
      PasswordHash = ''hashedpassword'',
      User.CreatedAt = Time 0 0, User.UpdatedAt = Time 0 0\<rparr>
   = (\<lparr>User.ID = 0x123e4567e89b42d3a456426614174000, Name = ''Alice'',
       Email = ''alice@example.com'', PasswordHash = ''hashedpassword'',
       User.CreatedAt = Time 1000000 0, User.UpdatedAt = Time 1001000 0\<rparr>,
      [(0x9f1c2d3e4a5b4c6d8e7f001122334455, ''Bob'', ''bob@example.com'', ''h'', 100, 100),
       (0x123e4567e89b42d3a456426614174000, ''Alice'', ''alice@example.com'',
        ''hashedpassword'', 1000, 1001)],
      None)"
    by (simp add: UserDB_Create_def Exec_def insert_users_def Let_def uuid_New_def
          timestamp_of_def)
  have c2: "RefreshTokenDB_Create 0x123e4567e89b12d3a456426614174000
     (Time 1000000 0) (Time 1001000 0) Delivered
     [(0x9f1c2d3e4a5b4c6d8e7f001122334455, 0x0a0b0c0d0e0f40718293a4b5c6d7e8f9,
       ''another_refresh_token'', 90000, 100, 100)]
     \<lparr>ID = 0, UserID = 0x0a0b0c0d0e0f40718293a4b5c6d7e8f9,
      RefreshToken = ''example_refresh_token'', ExpiresAt = Time 95000000 0,
      CreatedAt = Time 0 0, UpdatedAt = Time 0 0\<rparr>
   = (\<lparr>ID = 0x123e4567e89b42d3a456426614174000, UserID = 0x0a0b0c0d0e0f40718293a4b5c6d7e8f9,
       RefreshToken = ''example_refresh_token'', ExpiresAt = Time 95000000 0,
       CreatedAt = Time 1000000 0, UpdatedAt = Time 1001000 0\<rparr>,
      [(0x9f1c2d3e4a5b4c6d8e7f001122334455, 0x0a0b0c0d0e0f40718293a4b5c6d7e8f9,
        ''another_refresh_token'', 90000, 100, 100),
       (0x123e4567e89b42d3a456426614174000, 0x0a0b0c0d0e0f40718293a4b5c6d7e8f9,
        ''example_refresh_token'', 95000, 1000, 1001)],
      None)"
    by (simp add: RefreshTokenDB_Create_def Exec_def insert_refresh_tokens_def Let_def
          uuid_New_def timestamp_of_def)
  have other: "RefreshToken \<lparr>ID = 0, UserID = 0x0a0b0c0d0e0f40718293a4b5c6d7e8f9,
      RefreshToken = ''example_refresh_token'', ExpiresAt = Time 95000000 0,
      CreatedAt = Time 0 0, UpdatedAt = Time 0 0\<rparr>
     \<notin> set (map tokens_refresh_token
       [(0x9f1c2d3e4a5b4c6d8e7f001122334455, 0x0a0b0c0d0e0f40718293a4b5c6d7e8f9,
         ''another_refresh_token'', 90000, 100, 100)])"
    by simp
  from fresh_row_read_by_either_key[THEN conjunct1, rule_format, OF c1]
       fresh_row_read_by_either_key[THEN conjunct2, rule_format, OF conjI[OF c2 other]]
  show ?thesis by simp
qed

text \<open>
  C6 as the specification states it fails for tokens: the table holds a row with the
  string \<open>example_refresh_token\<close>, and a second token with the same string is created.
  \<open>Create\<close> succeeds (the column is not unique); \<open>ReadByRefreshToken\<close> then returns the
  older row, \<open>Read\<close> with the new identifier the new one.
\<close>

theorem ReadByRefreshToken_returns_older_row:
  "RefreshTokenDB_Create 0x123e4567e89b12d3a456426614174000
     (Time 1000000 0) (Time 1001000 0) Delivered
     [(0x9f1c2d3e4a5b4c6d8e7f001122334455, 0x0a0b0c0d0e0f40718293a4b5c6d7e8f9,
       ''example_refresh_token'', 90000, 100, 100)]
     \<lparr>ID = 0, UserID = 0x0a0b0c0d0e0f40718293a4b5c6d7e8f9,
      RefreshToken = ''example_refresh_token'', ExpiresAt = Time 95000000 0,
      CreatedAt = Time 0 0, UpdatedAt = Time 0 0\<rparr>
   = (\<lparr>ID = 0x123e4567e89b42d3a456426614174000, UserID = 0x0a0b0c0d0e0f40718293a4b5c6d7e8f9,
       RefreshToken = ''example_refresh_token'', ExpiresAt = Time 95000000 0,
       CreatedAt = Time 1000000 0, UpdatedAt = Time 1001000 0\<rparr>,
      [(0x9f1c2d3e4a5b4c6d8e7f001122334455, 0x0a0b0c0d0e0f40718293a4b5c6d7e8f9,
        ''example_refresh_token'', 90000, 100, 100),
       (0x123e4567e89b42d3a456426614174000, 0x0a0b0c0d0e0f40718293a4b5c6d7e8f9,
        ''example_refresh_token'', 95000, 1000, 1001)],
      None)
   \<and> RefreshTokenDB_ReadByRefreshToken Delivered
      [(0x9f1c2d3e4a5b4c6d8e7f001122334455, 0x0a0b0c0d0e0f40718293a4b5c6d7e8f9,
        ''example_refresh_token'', 90000, 100, 100),
       (0x123e4567e89b42d3a456426614174000, 0x0a0b0c0d0e0f40718293a4b5c6d7e8f9,
        ''example_refresh_token'', 95000, 1000, 1001)]
      ''example_refresh_token''
     = Inr \<lparr>ID = 0x9f1c2d3e4a5b4c6d8e7f001122334455, UserID = 0x0a0b0c0d0e0f40718293a4b5c6d7e8f9,
            RefreshToken = ''example_refresh_token'', ExpiresAt = Time 90000000 0,
            CreatedAt = Time 100000 0, UpdatedAt = Time 100000 0\<rparr>
   \<and> RefreshTokenDB_Read Delivered
      [(0x9f1c2d3e4a5b4c6d8e7f001122334455, 0x0a0b0c0d0e0f40718293a4b5c6d7e8f9,
        ''example_refresh_token'', 90000, 100, 100),
       (0x123e4567e89b42d3a456426614174000, 0x0a0b0c0d0e0f40718293a4b5c6d7e8f9,
        ''example_refresh_token'', 95000, 1000, 1001)]
      0x123e4567e89b42d3a456426614174000
     = Inr \<lparr>ID = 0x123e4567e89b42d3a456426614174000, UserID = 0x0a0b0c0d0e0f40718293a4b5c6d7e8f9,
            RefreshToken = ''example_refresh_token'', ExpiresAt = Time 95000000 0,
            CreatedAt = Time 1000000 0, UpdatedAt = Time 1001000 0\<rparr>
   \<and> RefreshTokenDB_ReadByRefreshToken Delivered
      [(0x9f1c2d3e4a5b4c6d8e7f001122334455, 0x0a0b0c0d0e0f40718293a4b5c6d7e8f9,
        ''example_refresh_token'', 90000, 100, 100),
       (0x123e4567e89b42d3a456426614174000, 0x0a0b0c0d0e0f40718293a4b5c6d7e8f9,
        ''example_refresh_token'', 95000, 1000, 1001)]
      ''example_refresh_token''
     \<noteq> RefreshTokenDB_Read Delivered
      [(0x9f1c2d3e4a5b4c6d8e7f001122334455, 0x0a0b0c0d0e0f40718293a4b5c6d7e8f9,
        ''example_refresh_token'', 90000, 100, 100),
       (0x123e4567e89b42d3a456426614174000, 0x0a0b0c0d0e0f40718293a4b5c6d7e8f9,
        ''example_refresh_token'', 95000, 1000, 1001)]
      0x123e4567e89b42d3a456426614174000"
  by (simp add: RefreshTokenDB_Create_def RefreshTokenDB_ReadByRefreshToken_def
        RefreshTokenDB_Read_def Exec_def QueryRow_Scan_def insert_refresh_tokens_def
        select_refresh_tokens_by_refresh_token_def select_refresh_tokens_by_id_def
        Let_def uuid_New_def timestamp_of_def time_of_def)

section \<open>How the reads fail\<close>

text \<open>
  Claim C7. Each of \<open>UserDB.Read\<close>, \<open>UserDB.ReadByEmail\<close>, \<open>RefreshTokenDB.Read\<close> and
  \<open>RefreshTokenDB.ReadByRefreshToken\<close> makes its one round trip and
  \<^item> fails with \<open>NotFound\<close> exactly when the query reached the server and selected no row;
  \<^item> fails with a \<open>PersistenceError\<close> that wraps the driver's error whenever the driver
    reports any other failure;
  \<^item> returns a record exactly when the query reached the server and selected a row,
    so that no failure is turned into a result.
\<close>

theorem read_failures:
  "(((\<exists>e. UserDB_Read rt db k = Inl e \<and> NotFound e)
       \<longleftrightarrow> rt = Delivered \<and> k \<notin> set (map users_id db))
   \<and> (\<forall>m. rt = Failed m \<longrightarrow>
         (\<exists>e. UserDB_Read rt db k = Inl e \<and> PersistenceError e
             \<and> Unwrap e = Some (DriverError m)))
   \<and> ((\<exists>r. UserDB_Read rt db k = Inr r) \<longleftrightarrow> rt = Delivered \<and> k \<in> set (map users_id db)))
 \<and> (((\<exists>e. UserDB_ReadByEmail rt db a = Inl e \<and> NotFound e)
       \<longleftrightarrow> rt = Delivered \<and> a \<notin> set (map users_email db))
   \<and> (\<forall>m. rt = Failed m \<longrightarrow>
         (\<exists>e. UserDB_ReadByEmail rt db a = Inl e \<and> PersistenceError e
             \<and> Unwrap e = Some (DriverError m)))
   \<and> ((\<exists>r. UserDB_ReadByEmail rt db a = Inr r)
       \<longleftrightarrow> rt = Delivered \<and> a \<in> set (map users_email db)))
 \<and> (((\<exists>e. RefreshTokenDB_Read rt tdb tk = Inl e \<and> NotFound e)
       \<longleftrightarrow> rt = Delivered \<and> tk \<notin> set (map tokens_id tdb))
   \<and> (\<forall>m. rt = Failed m \<longrightarrow>
         (\<exists>e. RefreshTokenDB_Read rt tdb tk = Inl e \<and> PersistenceError e
             \<and> Unwrap e = Some (DriverError m)))
   \<and> ((\<exists>r. RefreshTokenDB_Read rt tdb tk = Inr r)
       \<longleftrightarrow> rt = Delivered \<and> tk \<in> set (map tokens_id tdb)))
 \<and> (((\<exists>e. RefreshTokenDB_ReadByRefreshToken rt tdb s = Inl e \<and> NotFound e)
       \<longleftrightarrow> rt = Delivered \<and> s \<notin> set (map tokens_refresh_token tdb))
   \<and> (\<forall>m. rt = Failed m \<longrightarrow>
         (\<exists>e. RefreshTokenDB_ReadByRefreshToken rt tdb s = Inl e \<and> PersistenceError e
             \<and> Unwrap e = Some (DriverError m)))
   \<and> ((\<exists>r. RefreshTokenDB_ReadByRefreshToken rt tdb s = Inr r)
       \<longleftrightarrow> rt = Delivered \<and> s \<in> set (map tokens_refresh_token tdb)))"
  by (intro conjI[OF UserDB_Read_outcomes] conjI[OF UserDB_ReadByEmail_outcomes]
        conjI[OF RefreshTokenDB_Read_outcomes] RefreshTokenDB_ReadByRefreshToken_outcomes)

text \<open>
  C7 at the four reads, each once with a query that selects nothing and once with a
  connection that has been closed.
\<close>

theorem read_failures_witness:
  "(\<exists>e. UserDB_Read Delivered
           [(0x123e4567e89b42d3a456426614174000, ''Alice'', ''alice@example.com'',
             ''hashedpassword'', 100, 100)]
           0x9f1c2d3e4a5b4c6d8e7f001122334455 = Inl e \<and> NotFound e)
   \<and> (\<exists>e. UserDB_ReadByEmail Delivered
           [(0x123e4567e89b42d3a456426614174000, ''Alice'', ''alice@example.com'',
             ''hashedpassword'', 100, 100)]
           ''bob@example.com'' = Inl e \<and> NotFound e)
   \<and> (\<exists>e. RefreshTokenDB_Read Delivered [] 0x9f1c2d3e4a5b4c6d8e7f001122334455 = Inl e
         \<and> NotFound e)
   \<and> (\<exists>e. RefreshTokenDB_ReadByRefreshToken Delivered [] ''example_refresh_token'' = Inl e
         \<and> NotFound e)
   \<and> (\<exists>e. UserDB_Read (Failed ''conn closed'')
           [(0x123e4567e89b42d3a456426614174000, ''Alice'', ''alice@example.com'',
             ''hashedpassword'', 100, 100)]
           0x123e4567e89b42d3a456426614174000 = Inl e
         \<and> PersistenceError e \<and> Unwrap e = Some (DriverError ''conn closed''))
   \<and> (\<exists>e. UserDB_ReadByEmail (Failed ''conn closed'')
           [(0x123e4567e89b42d3a456426614174000, ''Alice'', ''alice@example.com'',
             ''hashedpassword'', 100, 100)]
           ''alice@example.com'' = Inl e
         \<and> PersistenceError e \<and> Unwrap e = Some (DriverError ''conn closed''))
   \<and> (\<exists>e. RefreshTokenDB_Read (Failed ''conn closed'') []
           0x9f1c2d3e4a5b4c6d8e7f001122334455 = Inl e
         \<and> PersistenceError e \<and> Unwrap e = Some (DriverError ''conn closed''))
   \<and> (\<exists>e. RefreshTokenDB_ReadByRefreshToken (Failed ''conn closed'') []
           ''example_refresh_token'' = Inl e
         \<and> PersistenceError e \<and> Unwrap e = Some (DriverError ''conn closed''))"
  using read_failures[of Delivered
      "[(0x123e4567e89b42d3a456426614174000, ''Alice'', ''alice@example.com'',
         ''hashedpassword'', 100, 100)]"
      "0x9f1c2d3e4a5b4c6d8e7f001122334455" "''bob@example.com''" "[]"
      "0x9f1c2d3e4a5b4c6d8e7f001122334455" "''example_refresh_token''"]
    read_failures[of "Failed ''conn closed''"
      "[(0x123e4567e89b42d3a456426614174000, ''Alice'', ''alice@example.com'',
         ''hashedpassword'', 100, 100)]"
      "0x123e4567e89b42d3a456426614174000" "''alice@example.com''" "[]"
      "0x9f1c2d3e4a5b4c6d8e7f001122334455" "''example_refresh_token''"]
  by simp

section \<open>The cache entry\<close>

text \<open>
  Claim C8, as the code has it. For a token whose \<open>ExpiresAt\<close> is later than the
  current instant, \<open>TokenCache.Set\<close> stores the token's \<open>RefreshToken\<close> under the key
  \<open>token.ID.String()\<close> with a time to live of \<open>ExpiresAt - now\<close>, capped at the largest
  \<open>Duration\<close> and cut to whole milliseconds but never below one; the time to live is
  \<open>ExpiresAt - now\<close> itself when that is a whole number of milliseconds that fits a
  \<open>Duration\<close>. For every token, \<open>Set\<close> touches no other key, and it returns an error
  exactly when the command fails: a \<open>CacheError\<close>, the cache being as it was. (What
  \<open>Set\<close> stores for a token that has already expired is not part of this statement.)
\<close>

theorem TokenCache_Set_entry:
  "(instant now < instant (ExpiresAt token) \<longrightarrow>
      fst (TokenCache_Set now Delivered c token) (String (ID token))
        = Some (RefreshToken token,
                Some (max 1 (min maxDuration (instant (ExpiresAt token) - instant now)
                             div 1000000))))
   \<and> (instant now < instant (ExpiresAt token)
        \<and> instant (ExpiresAt token) - instant now \<le> maxDuration
        \<and> (instant (ExpiresAt token) - instant now) mod 1000000 = 0 \<longrightarrow>
      (\<exists>ttl. fst (TokenCache_Set now Delivered c token) (String (ID token))
                = Some (RefreshToken token, Some ttl)
           \<and> ttl * 1000000 = instant (ExpiresAt token) - instant now))
   \<and> (\<forall>k. k \<noteq> String (ID token) \<longrightarrow> fst (TokenCache_Set now rt c token) k = c k)
   \<and> (snd (TokenCache_Set now rt c token) \<noteq> None \<longleftrightarrow> (\<exists>m. rt = Failed m))
   \<and> (\<forall>e. snd (TokenCache_Set now rt c token) = Some e \<longrightarrow> CacheError e)
   \<and> TokenCache_Set now (Failed m) c token = (c, Some (RedisError m))"
proof -
  let ?d = "instant (ExpiresAt token) - instant now"
  have entry: "fst (TokenCache_Set now Delivered c token) (String (ID token))
        = Some (RefreshToken token, Some (max 1 (min maxDuration ?d div 1000000)))"
    if "instant now < instant (ExpiresAt token)"
  proof -
    from that have "0 < Sub (ExpiresAt token) now"
      by (simp add: Sub_positive_iff)
    then show ?thesis
      using that by (simp add: TokenCache_Set_def redis_Set_positive Sub_positive)
  qed
  have exact: "\<exists>ttl. fst (TokenCache_Set now Delivered c token) (String (ID token))
                = Some (RefreshToken token, Some ttl) \<and> ttl * 1000000 = ?d"
    if later: "instant now < instant (ExpiresAt token)"
      and fits: "?d \<le> maxDuration" and whole: "?d mod 1000000 = 0"
  proof -
    from whole obtain k where k: "?d = 1000000 * k"
      by (auto simp: mod_eq_0_iff_dvd)
    with later have "1 \<le> k" by simp
    from fits have "min maxDuration ?d = ?d" by simp
    then have "max 1 (min maxDuration ?d div 1000000) = k"
      using k \<open>1 \<le> k\<close> by simp
    with entry[OF later] k show ?thesis by simp
  qed
  have frame: "\<forall>k. k \<noteq> String (ID token) \<longrightarrow> fst (TokenCache_Set now rt c token) k = c k"
    by (simp add: TokenCache_Set_def redis_Set_frame)
  have err: "(snd (TokenCache_Set now rt c token) \<noteq> None \<longleftrightarrow> (\<exists>m. rt = Failed m))
             \<and> (\<forall>e. snd (TokenCache_Set now rt c token) = Some e \<longrightarrow> CacheError e)"
    by (cases rt) (simp_all add: TokenCache_Set_def redis_Set_error)
  have failed: "TokenCache_Set now (Failed m) c token = (c, Some (RedisError m))"
    by (simp add: TokenCache_Set_def redis_Set_def)
  show ?thesis
  proof (intro conjI)
    show "instant now < instant (ExpiresAt token) \<longrightarrow>
      fst (TokenCache_Set now Delivered c token) (String (ID token))
        = Some (RefreshToken token,
                Some (max 1 (min maxDuration (instant (ExpiresAt token) - instant now)
                             div 1000000)))"
      using entry by simp
    show "instant now < instant (ExpiresAt token)
        \<and> instant (ExpiresAt token) - instant now \<le> maxDuration
        \<and> (instant (ExpiresAt token) - instant now) mod 1000000 = 0 \<longrightarrow>
      (\<exists>ttl. fst (TokenCache_Set now Delivered c token) (String (ID token))
                = Some (RefreshToken token, Some ttl)
           \<and> ttl * 1000000 = instant (ExpiresAt token) - instant now)"
      using exact by simp
    show "\<forall>k. k \<noteq> String (ID token) \<longrightarrow> fst (TokenCache_Set now rt c token) k = c k"
      by (rule frame)
    show "snd (TokenCache_Set now rt c token) \<noteq> None \<longleftrightarrow> (\<exists>m. rt = Failed m)"
      using err by (rule conjunct1)
    show "\<forall>e. snd (TokenCache_Set now rt c token) = Some e \<longrightarrow> CacheError e"
      using err by (rule conjunct2)
    show "TokenCache_Set now (Failed m) c token = (c, Some (RedisError m))"
      by (rule failed)
  qed
qed

text \<open>
  C8 at a token that expires 24 hours from now, set once through a working client
  and once through a client that cannot connect.
\<close>

theorem TokenCache_Set_entry_witness:
  "fst (TokenCache_Set (Time 1700000000000000000 0) Delivered Map.empty
          \<lparr>ID = 0x9f1c2d3e4a5b4c6d8e7f001122334455, UserID = 0x0a0b0c0d0e0f40718293a4b5c6d7e8f9,
           RefreshToken = ''example_refresh_token'', ExpiresAt = Time 1700086400000000000 0,
           CreatedAt = Time 1700000000000000000 0, UpdatedAt = Time 1700000000000000000 0\<rparr>)
       ''9f1c2d3e-4a5b-4c6d-8e7f-001122334455''
     = Some (''example_refresh_token'', Some 86400000)
   \<and> (86400000 :: int) * 1000000 = 1700086400000000000 - 1700000000000000000
   \<and> snd (TokenCache_Set (Time 1700000000000000000 0) Delivered Map.empty
          \<lparr>ID = 0x9f1c2d3e4a5b4c6d8e7f001122334455, UserID = 0x0a0b0c0d0e0f40718293a4b5c6d7e8f9,
           RefreshToken = ''example_refresh_token'', ExpiresAt = Time 1700086400000000000 0,
           CreatedAt = Time 1700000000000000000 0, UpdatedAt = Time 1700000000000000000 0\<rparr>)
     = None
   \<and> TokenCache_Set (Time 1700000000000000000 0) (Failed ''dial tcp: connection refused'')
          Map.empty
          \<lparr>ID = 0x9f1c2d3e4a5b4c6d8e7f001122334455, UserID = 0x0a0b0c0d0e0f40718293a4b5c6d7e8f9,
           RefreshToken = ''example_refresh_token'', ExpiresAt = Time 1700086400000000000 0,
           CreatedAt = Time 1700000000000000000 0, UpdatedAt = Time 1700000000000000000 0\<rparr>
     = (Map.empty, Some (RedisError ''dial tcp: connection refused''))
   \<and> CacheError (RedisError ''dial tcp: connection refused'')"
  using TokenCache_Set_entry[of "Time 1700000000000000000 0"
          "\<lparr>ID = 0x9f1c2d3e4a5b4c6d8e7f001122334455, UserID = 0x0a0b0c0d0e0f40718293a4b5c6d7e8f9,
           RefreshToken = ''example_refresh_token'', ExpiresAt = Time 1700086400000000000 0,
           CreatedAt = Time 1700000000000000000 0, UpdatedAt = Time 1700000000000000000 0\<rparr>"
          Map.empty Delivered "''dial tcp: connection refused''"]
  by (simp add: maxDuration_def
        String_example)

text \<open>
  C8 as the specification states it fails, at three tokens set at the same instant.
  \<^item> One expires \<open>10000000000000000000\<close> nanoseconds (some 317 years) from now: its time
    to live is \<open>9223372036854\<close> milliseconds, the largest \<open>Duration\<close>.
  \<^item> One expires 24 hours and half a millisecond from now: its time to live is
    \<open>86400000\<close> milliseconds, half a millisecond short.
  \<^item> One expired an hour ago: \<open>ExpiresAt - now\<close> is negative, the client sends the
    command without an expiry, and the entry is stored with no time to live at all.
\<close>

theorem TokenCache_Set_ttl_differs:
  "fst (TokenCache_Set (Time 1700000000000000000 0) Delivered Map.empty
          \<lparr>ID = 0x9f1c2d3e4a5b4c6d8e7f001122334455, UserID = 0x0a0b0c0d0e0f40718293a4b5c6d7e8f9,
           RefreshToken = ''example_refresh_token'', ExpiresAt = Time 11700000000000000000 0,
           CreatedAt = Time 1700000000000000000 0, UpdatedAt = Time 1700000000000000000 0\<rparr>)
       ''9f1c2d3e-4a5b-4c6d-8e7f-001122334455''
     = Some (''example_refresh_token'', Some 9223372036854)
   \<and> (9223372036854 :: int) * 1000000 \<noteq> 11700000000000000000 - 1700000000000000000
   \<and> fst (TokenCache_Set (Time 1700000000000000000 0) Delivered Map.empty
          \<lparr>ID = 0x9f1c2d3e4a5b4c6d8e7f001122334455, UserID = 0x0a0b0c0d0e0f40718293a4b5c6d7e8f9,
           RefreshToken = ''example_refresh_token'', ExpiresAt = Time 1700086400000500000 0,
           CreatedAt = Time 1700000000000000000 0, UpdatedAt = Time 1700000000000000000 0\<rparr>)
       ''9f1c2d3e-4a5b-4c6d-8e7f-001122334455''
     = Some (''example_refresh_token'', Some 86400000)
   \<and> (86400000 :: int) * 1000000 \<noteq> 1700086400000500000 - 1700000000000000000
   \<and> fst (TokenCache_Set (Time 1700000000000000000 0) Delivered Map.empty
          \<lparr>ID = 0x9f1c2d3e4a5b4c6d8e7f001122334455, UserID = 0x0a0b0c0d0e0f40718293a4b5c6d7e8f9,
           RefreshToken = ''example_refresh_token'', ExpiresAt = Time 1699996400000000000 0,
           CreatedAt = Time 1699990000000000000 0, UpdatedAt = Time 1699990000000000000 0\<rparr>)
       ''9f1c2d3e-4a5b-4c6d-8e7f-001122334455''
     = Some (''example_refresh_token'', None)"
  by (simp add: TokenCache_Set_def redis_Set_def Sub_def maxDuration_def minDuration_def
        usePrecise_def formatMs_def formatSec_def Millisecond_def Second_def KeepTTL_def
        String_example)

section \<open>What the methods do to the caller's record\<close>

text \<open>
  Claim C9. \<open>UserDB.Create\<close> and \<open>RefreshTokenDB.Create\<close> overwrite the \<open>ID\<close>,
  \<open>CreatedAt\<close> and \<open>UpdatedAt\<close> of the caller's record before the insert: whatever
  \<open>Create\<close> returns, an error included, the record leaves it with the new identifier
  and the two readings of the clock, and the row a successful \<open>Create\<close> writes carries
  these new values, as its columns keep them.
\<close>

theorem Create_overwrites_before_insert:
  "fst (UserDB_Create rnd now1 now2 rt db user)
     = user\<lparr>User.ID := uuid_New rnd, User.CreatedAt := now1, User.UpdatedAt := now2\<rparr>
   \<and> (snd (snd (UserDB_Create rnd now1 now2 rt db user)) = None \<longrightarrow>
        fst (snd (UserDB_Create rnd now1 now2 rt db user))
          = db @ [(uuid_New rnd, Name user, Email user, PasswordHash user,
                   timestamp_of now1, timestamp_of now2)])
   \<and> fst (RefreshTokenDB_Create rnd now1 now2 rt tdb token)
     = token\<lparr>ID := uuid_New rnd, CreatedAt := now1, UpdatedAt := now2\<rparr>
   \<and> (snd (snd (RefreshTokenDB_Create rnd now1 now2 rt tdb token)) = None \<longrightarrow>
        fst (snd (RefreshTokenDB_Create rnd now1 now2 rt tdb token))
          = tdb @ [(uuid_New rnd, UserID token, RefreshToken token,
                    timestamp_of (ExpiresAt token), timestamp_of now1, timestamp_of now2)])"
  by (simp add: UserDB_Create_record RefreshTokenDB_Create_record UserDB_Create_table
        RefreshTokenDB_Create_table)

text \<open>
  C9 at a user whose email is taken (the insert is refused, the record keeps the new
  identifier and timestamps), at a token whose insert succeeds (the clock three hours
  east of UTC), and at a token whose insert is cancelled.
\<close>

theorem Create_overwrites_before_insert_witness:
  "UserDB_Create 0x123e4567e89b12d3a456426614174000 (Time 1000000 0) (Time 1001000 0) Delivered
     [(0x9f1c2d3e4a5b4c6d8e7f001122334455, ''Alice'', ''alice@example.com'', ''h'', 100, 100)]
     \<lparr>User.ID = 0, Name = ''Alice'', Email = ''alice@example.com'',
      PasswordHash = ''hashedpassword'',
      User.CreatedAt = Time 0 0, User.UpdatedAt = Time 0 0\<rparr>
   = (\<lparr>User.ID = 0x123e4567e89b42d3a456426614174000, Name = ''Alice'',
       Email = ''alice@example.com'', PasswordHash = ''hashedpassword'',
       User.CreatedAt = Time 1000000 0, User.UpdatedAt = Time 1001000 0\<rparr>,
      [(0x9f1c2d3e4a5b4c6d8e7f001122334455, ''Alice'', ''alice@example.com'', ''h'', 100, 100)],
      Some (fmt_Errorf_w ''failed to insert user: '' (unique_violation ''users_email_key'')))
   \<and> RefreshTokenDB_Create 0x123e4567e89b12d3a456426614174000
     (Time 1000000 10800) (Time 1001000 10800) Delivered []
     \<lparr>ID = 0, UserID = 0x9f1c2d3e4a5b4c6d8e7f001122334455,
      RefreshToken = ''example_refresh_token'', ExpiresAt = Time 90000000000 0,
      CreatedAt = Time 0 0, UpdatedAt = Time 0 0\<rparr>
   = (\<lparr>ID = 0x123e4567e89b42d3a456426614174000, UserID = 0x9f1c2d3e4a5b4c6d8e7f001122334455,
       RefreshToken = ''example_refresh_token'', ExpiresAt = Time 90000000000 0,
       CreatedAt = Time 1000000 10800, UpdatedAt = Time 1001000 10800\<rparr>,
      [(0x123e4567e89b42d3a456426614174000, 0x9f1c2d3e4a5b4c6d8e7f001122334455,
        ''example_refresh_token'', 90000000, 10800001000, 10800001001)],
      None)
   \<and> RefreshTokenDB_Create 0x123e4567e89b12d3a456426614174000
     (Time 1000000 10800) (Time 1001000 10800) (Failed ''context canceled'') []
     \<lparr>ID = 0, UserID = 0x9f1c2d3e4a5b4c6d8e7f001122334455,
      RefreshToken = ''example_refresh_token'', ExpiresAt = Time 90000000000 0,
      CreatedAt = Time 0 0, UpdatedAt = Time 0 0\<rparr>
   = (\<lparr>ID = 0x123e4567e89b42d3a456426614174000, UserID = 0x9f1c2d3e4a5b4c6d8e7f001122334455,
       RefreshToken = ''example_refresh_token'', ExpiresAt = Time 90000000000 0,
       CreatedAt = Time 1000000 10800, UpdatedAt = Time 1001000 10800\<rparr>,
      [],
      Some (Errorf ''failed to insert refresh token: context canceled''
             (Some (DriverError ''context canceled''))))"
  using Create_overwrites_before_insert[of "0x123e4567e89b12d3a456426614174000"
     "Time 1000000 0" "Time 1001000 0" Delivered
     "[(0x9f1c2d3e4a5b4c6d8e7f001122334455, ''Alice'', ''alice@example.com'', ''h'', 100, 100)]"
     "\<lparr>User.ID = 0, Name = ''Alice'', Email = ''alice@example.com'',
      PasswordHash = ''hashedpassword'',
      User.CreatedAt = Time 0 0, User.UpdatedAt = Time 0 0\<rparr>" "[]"
     "\<lparr>ID = 0, UserID = 0x9f1c2d3e4a5b4c6d8e7f001122334455,
      RefreshToken = ''example_refresh_token'', ExpiresAt = Time 90000000000 0,
      CreatedAt = Time 0 0, UpdatedAt = Time 0 0\<rparr>"]
  by (simp add: UserDB_Create_def RefreshTokenDB_Create_def Exec_def insert_users_def
        insert_refresh_tokens_def Let_def uuid_New_def fmt_Errorf_w_def timestamp_of_def)

text \<open>
  Claim C10. \<open>UserDB.Update\<close> sets the \<open>UpdatedAt\<close> of the caller's record to the reading
  of the clock before it calls the database: whatever \<open>Update\<close> returns, an error
  included, the record leaves it with that \<open>UpdatedAt\<close> and with every other field as
  it was.
\<close>

theorem Update_touches_only_UpdatedAt:
  "fst (UserDB_Update now rt db user) = user\<lparr>User.UpdatedAt := now\<rparr>
   \<and> User.ID (fst (UserDB_Update now rt db user)) = User.ID user
   \<and> Name (fst (UserDB_Update now rt db user)) = Name user
   \<and> Email (fst (UserDB_Update now rt db user)) = Email user
   \<and> PasswordHash (fst (UserDB_Update now rt db user)) = PasswordHash user
   \<and> User.CreatedAt (fst (UserDB_Update now rt db user)) = User.CreatedAt user
   \<and> User.UpdatedAt (fst (UserDB_Update now rt db user)) = now"
  by (simp add: UserDB_Update_record)

text \<open>
  C10 at an update that matches no row: \<open>Update\<close> returns \<open>user not found\<close>, and the
  caller's \<open>UpdatedAt\<close> has gone from the instant 8000 to the instant 5000000.
\<close>

theorem Update_touches_only_UpdatedAt_witness:
  "UserDB_Update (Time 5000000 0) Delivered
     [(0x123e4567e89b42d3a456426614174000, ''Alice'', ''alice@example.com'',
       ''hashedpassword'', 1000, 1000)]
     \<lparr>User.ID = 0x9f1c2d3e4a5b4c6d8e7f001122334455, Name = ''Bob'', Email = ''bob@example.com'',
      PasswordHash = ''h'', User.CreatedAt = Time 7000 0, User.UpdatedAt = Time 8000 0\<rparr>
   = (\<lparr>User.ID = 0x9f1c2d3e4a5b4c6d8e7f001122334455, Name = ''Bob'', Email = ''bob@example.com'',
       PasswordHash = ''h'', User.CreatedAt = Time 7000 0, User.UpdatedAt = Time 5000000 0\<rparr>,
      [(0x123e4567e89b42d3a456426614174000, ''Alice'', ''alice@example.com'',
        ''hashedpassword'', 1000, 1000)],
      Some (Errorf ''user not found'' None))"
  using Update_touches_only_UpdatedAt[of "Time 5000000 0" Delivered
     "[(0x123e4567e89b42d3a456426614174000, ''Alice'', ''alice@example.com'',
        ''hashedpassword'', 1000, 1000)]"
     "\<lparr>User.ID = 0x9f1c2d3e4a5b4c6d8e7f001122334455, Name = ''Bob'', Email = ''bob@example.com'',
      PasswordHash = ''h'', User.CreatedAt = Time 7000 0, User.UpdatedAt = Time 8000 0\<rparr>"]
  by (simp add: UserDB_Update_def Exec_def update_users_def Let_def fmt_Errorf_def)

section \<open>Further properties of the stores\<close>

text \<open>
  X1. When the driver fails the call, each method that writes (\<open>Create\<close>, \<open>Update\<close>,
  \<open>Delete\<close> of either store) returns a \<open>PersistenceError\<close> that wraps the driver's error.
\<close>

theorem driver_failure_is_PersistenceError:
  "(\<exists>e. snd (snd (UserDB_Create rnd now1 now2 (Failed m) db user)) = Some e
        \<and> PersistenceError e \<and> Unwrap e = Some (DriverError m))
   \<and> (\<exists>e. snd (snd (UserDB_Update now (Failed m) db user)) = Some e
        \<and> PersistenceError e \<and> Unwrap e = Some (DriverError m))
   \<and> (\<exists>e. snd (UserDB_Delete (Failed m) db k) = Some e
        \<and> PersistenceError e \<and> Unwrap e = Some (DriverError m))
   \<and> (\<exists>e. snd (snd (RefreshTokenDB_Create rnd now1 now2 (Failed m) tdb token)) = Some e
        \<and> PersistenceError e \<and> Unwrap e = Some (DriverError m))
   \<and> (\<exists>e. snd (RefreshTokenDB_Delete (Failed m) tdb tk) = Some e
        \<and> PersistenceError e \<and> Unwrap e = Some (DriverError m))"
  using PersistenceError_failed[of "''insert user: ''"] PersistenceError_failed[of "''update user: ''"]
    PersistenceError_failed[of "''delete user: ''"]
    PersistenceError_failed[of "''insert refresh token: ''"]
    PersistenceError_failed[of "''delete refresh token: ''"]
  by (simp add: UserDB_Create_def UserDB_Update_def UserDB_Delete_def RefreshTokenDB_Create_def
        RefreshTokenDB_Delete_def Exec_def Let_def Unwrap_fmt_Errorf_w)

text \<open>
  X2. The primary key and the unique email of table \<open>users\<close> survive every method of
  the user store: from a table whose identifiers and emails are pairwise distinct,
  \<open>Create\<close>, \<open>Update\<close> and \<open>Delete\<close> lead to such a table again, whatever they return.
\<close>

lemma map_id_update:
  "map users_id (map (\<lambda>r. if users_id r = k then set_users p1 p2 p3 p4 r else r) tbl)
     = map users_id tbl"
  by (induction tbl) auto

lemma users_email_set_users [simp]: "users_email (set_users p1 p2 p3 p4 r) = p2"
  by (cases r) simp

lemma distinct_email_update:
  assumes "distinct (map users_id tbl)" and "distinct (map users_email tbl)"
      and "filter (\<lambda>r. users_id r \<noteq> k \<and> users_email r = p2) tbl = []"
  shows "distinct (map users_email
           (map (\<lambda>r. if users_id r = k then set_users p1 p2 p3 p4 r else r) tbl))"
  using assms
proof (induction tbl)
  case Nil
  then show ?case by simp
next
  case (Cons r tbl)
  show ?case
  proof (cases "users_id r = k")
    case True
    then have "k \<notin> set (map users_id tbl)"
      using Cons.prems(1) by auto
    then have same: "map (\<lambda>r. if users_id r = k then set_users p1 p2 p3 p4 r else r) tbl = tbl"
      by (induction tbl) auto
    have "p2 \<notin> set (map users_email tbl)"
    proof
      assume "p2 \<in> set (map users_email tbl)"
      then obtain x where x: "x \<in> set tbl" "users_email x = p2" by auto
      with \<open>k \<notin> set (map users_id tbl)\<close> have "users_id x \<noteq> k" by auto
      with x have "x \<in> set (filter (\<lambda>r. users_id r \<noteq> k \<and> users_email r = p2) (r # tbl))"
        by simp
      with Cons.prems(3) show False by simp
    qed
    with True same Cons.prems(2) show ?thesis by simp
  next
    case False
    have ne: "users_email r \<noteq> p2"
      using Cons.prems(3) False by (auto split: if_splits)
    have rest: "filter (\<lambda>r. users_id r \<noteq> k \<and> users_email r = p2) tbl = []"
      using Cons.prems(3) False by (auto split: if_splits)
    have ih: "distinct (map users_email
           (map (\<lambda>r. if users_id r = k then set_users p1 p2 p3 p4 r else r) tbl))"
      using Cons.IH Cons.prems rest by simp
    have "set (map users_email
           (map (\<lambda>r. if users_id r = k then set_users p1 p2 p3 p4 r else r) tbl))
          \<subseteq> insert p2 (set (map users_email tbl))"
      by (induction tbl) auto
    moreover have "users_email r \<notin> insert p2 (set (map users_email tbl))"
      using Cons.prems(2) ne by simp
    ultimately have "users_email r \<notin> set (map users_email
           (map (\<lambda>r. if users_id r = k then set_users p1 p2 p3 p4 r else r) tbl))"
      by blast
    with False ih show ?thesis by simp
  qed
qed

theorem users_keys_stay_unique:
  assumes "distinct (map users_id db)" and "distinct (map users_email db)"
  shows "distinct (map users_id (fst (snd (UserDB_Create rnd now1 now2 rt db user))))
       \<and> distinct (map users_email (fst (snd (UserDB_Create rnd now1 now2 rt db user))))
       \<and> distinct (map users_id (fst (snd (UserDB_Update now rt db user))))
       \<and> distinct (map users_email (fst (snd (UserDB_Update now rt db user))))
       \<and> distinct (map users_id (fst (UserDB_Delete rt db k)))
       \<and> distinct (map users_email (fst (UserDB_Delete rt db k)))"
proof -
  have c: "distinct (map users_id (fst (snd (UserDB_Create rnd now1 now2 rt db user))))
       \<and> distinct (map users_email (fst (snd (UserDB_Create rnd now1 now2 rt db user))))"
    using assms UserDB_Create_ok_fresh(1,2)[of rnd now1 now2 rt db user]
    by (simp add: UserDB_Create_table)
  have d: "distinct (map users_id (fst (UserDB_Delete rt db k)))
       \<and> distinct (map users_email (fst (UserDB_Delete rt db k)))"
    using assms
    by (cases rt) (simp_all add: UserDB_Delete_def Exec_def delete_users_def distinct_map_filter)
  have u: "distinct (map users_id (fst (snd (UserDB_Update now rt db user))))
       \<and> distinct (map users_email (fst (snd (UserDB_Update now rt db user))))"
  proof (cases rt)
    case (Failed m)
    with assms show ?thesis by (simp add: UserDB_Update_def Exec_def Let_def)
  next
    case Delivered
    show ?thesis
    proof (cases "filter (\<lambda>r. users_id r = User.ID user) db \<noteq> []
                  \<and> filter (\<lambda>r. users_id r \<noteq> User.ID user \<and> users_email r = Email user) db \<noteq> []")
      case True
      with Delivered assms show ?thesis
        by (simp add: UserDB_Update_def Exec_def update_users_def Let_def)
    next
      case False
      show ?thesis
      proof (cases "filter (\<lambda>r. users_id r = User.ID user) db = []")
        case True
        then have "User.ID user \<notin> set (map users_id db)"
          using filter_key_nonempty[of "User.ID user" users_id db] by blast
        with Delivered assms show ?thesis by (simp add: UserDB_Update_missing)
      next
        case hit: False
        with False have free:
          "filter (\<lambda>r. users_id r \<noteq> User.ID user \<and> users_email r = Email user) db = []"
          by simp
        from Delivered hit free assms show ?thesis
          by (simp add: UserDB_Update_def Exec_def update_users_def Let_def map_id_update
                distinct_email_update del: map_map)
      qed
    qed
  qed
  from c u d show ?thesis by simp
qed

text \<open>X2 at a table of two users: a creation, an update and a deletion.\<close>

theorem users_keys_stay_unique_witness:
  "distinct (map users_id (fst (snd (UserDB_Create 0x5e0a1b2c3d4e1f60718293a4b5c6d7e8
       (Time 1000000 0) (Time 1001000 0) Delivered
       [(0x123e4567e89b42d3a456426614174000, ''Alice'', ''alice@example.com'',
         ''hashedpassword'', 100, 100),
        (0x9f1c2d3e4a5b4c6d8e7f001122334455, ''Bob'', ''bob@example.com'', ''h'', 100, 100)]
       \<lparr>User.ID = 0, Name = ''Carol'', Email = ''carol@example.com'',
        PasswordHash = ''c'', User.CreatedAt = Time 0 0, User.UpdatedAt = Time 0 0\<rparr>))))
   \<and> distinct (map users_email (fst (snd (UserDB_Update (Time 2000000 0) Delivered
       [(0x123e4567e89b42d3a456426614174000, ''Alice'', ''alice@example.com'',
         ''hashedpassword'', 100, 100),
        (0x9f1c2d3e4a5b4c6d8e7f001122334455, ''Bob'', ''bob@example.com'', ''h'', 100, 100)]
       \<lparr>User.ID = 0x123e4567e89b42d3a456426614174000, Name = ''Alice Updated'',
        Email = ''bob@example.com'', PasswordHash = ''newhashedpassword'',
        User.CreatedAt = Time 0 0, User.UpdatedAt = Time 0 0\<rparr>))))
   \<and> distinct (map users_id (fst (UserDB_Delete Delivered
       [(0x123e4567e89b42d3a456426614174000, ''Alice'', ''alice@example.com'',
         ''hashedpassword'', 100, 100),
        (0x9f1c2d3e4a5b4c6d8e7f001122334455, ''Bob'', ''bob@example.com'', ''h'', 100, 100)]
       0x9f1c2d3e4a5b4c6d8e7f001122334455)))"
proof -
  have h1: "distinct (map users_id
       [(0x123e4567e89b42d3a456426614174000, ''Alice'', ''alice@example.com'',
         ''hashedpassword'', 100, 100),
        (0x9f1c2d3e4a5b4c6d8e7f001122334455, ''Bob'', ''bob@example.com'', ''h'', 100, 100)])"
    by simp
  have h2: "distinct (map users_email
       [(0x123e4567e89b42d3a456426614174000, ''Alice'', ''alice@example.com'',
         ''hashedpassword'', 100, 100),
        (0x9f1c2d3e4a5b4c6d8e7f001122334455, ''Bob'', ''bob@example.com'', ''h'', 100, 100)])"
    by simp
  show ?thesis
    using users_keys_stay_unique[OF h1 h2, of "0x5e0a1b2c3d4e1f60718293a4b5c6d7e8"
        "Time 1000000 0" "Time 1001000 0"
        Delivered
        "\<lparr>User.ID = 0, Name = ''Carol'', Email = ''carol@example.com'',
          PasswordHash = ''c'', User.CreatedAt = Time 0 0, User.UpdatedAt = Time 0 0\<rparr>"
        "Time 2000000 0" "0x9f1c2d3e4a5b4c6d8e7f001122334455"]
      users_keys_stay_unique[OF h1 h2, of "0x5e0a1b2c3d4e1f60718293a4b5c6d7e8"
        "Time 1000000 0" "Time 1001000 0"
        Delivered
        "\<lparr>User.ID = 0x123e4567e89b42d3a456426614174000, Name = ''Alice Updated'',
          Email = ''bob@example.com'', PasswordHash = ''newhashedpassword'',
          User.CreatedAt = Time 0 0, User.UpdatedAt = Time 0 0\<rparr>"
        "Time 2000000 0" "0x9f1c2d3e4a5b4c6d8e7f001122334455"]
    by simp
qed

end
